theory Spec2Isabelle
  imports Complex_Main "HOL-Library.Multiset" "HOL-Library.Sublist" "HOL-Library.AList"
    "HOL-Library.Char_ord" "HOL-Library.List_Lexorder"
begin

section \<open>Paint property binders of \<open>src/data/program_configuration.js\<close>\<close>

text \<open>
  The development embeds the binder classes and \<open>ProgramConfiguration\<close> of
  \<open>src/data/program_configuration.js\<close>. Objects are records, the five binder classes are
  the constructors of one datatype, JavaScript objects used as dictionaries are association
  lists in enumeration order, and a method that mutates its receiver returns the updated
  receiver, or the exception it throws. Vertex counts, offsets and indices are natural
  numbers; zoom levels and the numbers an expression evaluates to are real numbers
  (rounding of doubles is not modelled; no statement below depends on it).
\<close>

subsection \<open>Values, features, expressions\<close>

record Color =
  col_r :: real
  col_g :: real
  col_b :: real
  col_a :: real

text \<open>
  What an expression evaluates to. The Flow annotations tie the kind of value to the binder
  that reads it: a binder of type \<open>color\<close> reads a \<open>Color\<close>, a cross-faded binder reads an
  image name (a key of \<open>imagePositions\<close>), every other binder reads a number. The
  selectors are used only at the kind the annotations give. An evaluation that yields
  \<open>null\<close> or \<open>undefined\<close> is outside this type.
\<close>

datatype val =
    Number (the_number: real)
  | ColorValue (the_color: Color)
  | StringValue (the_string: string)

text \<open>
  A feature id is a number or a string; \<open>f_id = None\<close> is a feature without id
  (\<open>undefined\<close>). Numeric ids are the unsigned integers of a vector tile.
\<close>

datatype feature_id = NumberId nat | StringId string

record Feature =
  f_id :: "feature_id option"
  f_properties :: "(string \<times> val) list"

type_synonym FeatureState = "(string \<times> val) list"

text \<open>
  The expression evaluator is a collaborator outside this file: an expression is given by
  its \<open>evaluate\<close> function (zoom, feature, optional feature state), its
  \<open>isStateDependent\<close> flag and, for composite expressions, its \<open>interpolationFactor\<close>
  function (input, lower, upper).
\<close>

record Expression =
  evaluate :: "real \<Rightarrow> Feature \<Rightarrow> FeatureState option \<Rightarrow> val"
  isStateDependent :: bool
  expr_interpolationFactor :: "real \<Rightarrow> real \<Rightarrow> real \<Rightarrow> real"

text \<open>
  The \<open>value\<close> of a \<open>PossiblyEvaluatedPropertyValue\<close>: of kind \<open>constant\<close> with its
  value, or a source or composite expression.
\<close>

datatype PossiblyEvaluatedValue =
    ConstantKind val
  | SourceKind Expression
  | CompositeKind Expression

record ImagePosition =
  ip_tl :: "real \<times> real"
  ip_br :: "real \<times> real"
  ip_pixelRatio :: real

text \<open>
  \<open>imagePositions\<close> is a dictionary from image name to position; the binders test it with
  \<open>if (imagePositions)\<close>, so an absent dictionary is \<open>None\<close>.
\<close>

type_synonym ImagePositions = "(string \<times> ImagePosition) list option"

record CrossfadeParameters =
  fromScale :: real
  toScale :: real
  cf_t :: real

subsection \<open>Objects used as dictionaries\<close>

text \<open>
  The exceptions of the embedded code are all of one kind: a member of \<open>undefined\<close> is
  read, or something that is no function, constructor or iterable is used as one.
\<close>

datatype error = TypeError

text \<open>
  \<open>_idMap\<close> and \<open>imagePositions\<close> are plain objects (\<open>{}\<close>) read with \<open>object[key]\<close>
  under keys that come from the data: feature ids and image names. Such a read finds the
  object's own property, or else the member of that name that every plain object inherits
  from \<open>Object.prototype\<close>, or else \<open>undefined\<close>. The own properties are an association
  list in insertion order.
\<close>

definition Object_prototype_members :: "string list" where
  "Object_prototype_members =
     [''constructor'', ''__defineGetter__'', ''__defineSetter__'', ''hasOwnProperty'',
      ''__lookupGetter__'', ''__lookupSetter__'', ''isPrototypeOf'', ''propertyIsEnumerable'',
      ''toString'', ''valueOf'', ''__proto__'', ''toLocaleString'']"

datatype 'a member = Own 'a | Inherited | Undefined

definition get_member :: "(string \<times> 'a) list \<Rightarrow> string \<Rightarrow> 'a member" where
  "get_member object key =
     (case map_of object key of
        Some v \<Rightarrow> Own v
      | None \<Rightarrow> if key \<in> set Object_prototype_members then Inherited else Undefined)"

text \<open>
  \<open>!x\<close> and \<open>x || y\<close> test truthiness: the stored arrays and image positions are
  objects and the inherited members are functions (or, for \<open>__proto__\<close>, an object), all
  truthy; only \<open>undefined\<close> is falsy.
\<close>

fun truthy_member :: "'a member \<Rightarrow> bool" where
  "truthy_member (Own v) = True"
| "truthy_member Inherited = True"
| "truthy_member Undefined = False"

subsection \<open>Paint arrays\<close>

text \<open>
  One component of a paint array element. \<open>packUint8ToFloat\<close> is imported from
  \<open>shaders/encode_attribute\<close>, which is not among these sources: its applications are kept
  as they are written, as the constructor \<open>PackUint8ToFloat\<close> on its two arguments.
\<close>

datatype component = Float real | PackUint8ToFloat real real

definition packColor :: "Color \<Rightarrow> component \<times> component" where
  "packColor color =
     (PackUint8ToFloat (255 * col_r color) (255 * col_g color),
      PackUint8ToFloat (255 * col_b color) (255 * col_a color))"

text \<open>
  Modelled from the spec: \<open>StructArray\<close> (\<open>util/struct_array\<close> and the generated layout
  classes of \<open>array_types\<close> are not among these sources). The spec calls it a growable
  array: it is the list of its elements, each element the list of the components that were
  passed to \<open>emplaceBack\<close> or \<open>emplace\<close>. \<open>emplaceBack\<close> appends one element,
  \<open>emplace(i, ...)\<close> overwrites element \<open>i\<close> (a typed-array write past the end stores
  nothing into the elements), and \<open>reserve\<close> changes the capacity only, never the length.
\<close>

type_synonym StructArray = "component list list"

definition emplaceBack :: "StructArray \<Rightarrow> component list \<Rightarrow> StructArray" where
  "emplaceBack arr vs = arr @ [vs]"


definition reserve :: "StructArray \<Rightarrow> nat \<Rightarrow> StructArray" where
  "reserve arr n = arr"

text \<open>The loop \<open>for (let i = start; i < newLength; i++) paintArray.emplaceBack(...)\<close>.\<close>

definition emplaceBack_loop :: "StructArray \<Rightarrow> nat \<Rightarrow> nat \<Rightarrow> component list \<Rightarrow> StructArray" where
  "emplaceBack_loop arr start newLength vs =
     fold (\<lambda>i acc. emplaceBack acc vs) [start..<newLength] arr"


datatype StructArrayLayout =
    StructArrayLayout1f4 | StructArrayLayout2f8 | StructArrayLayout4f16 | PatternLayoutArray

text \<open>\<open>new PaintVertexArray()\<close>: an empty array of the given layout class.\<close>

definition new_StructArray :: "StructArrayLayout \<Rightarrow> StructArray" where
  "new_StructArray layout = []"

record StructArrayMember =
  m_name :: string
  m_type :: string
  m_components :: nat
  m_offset :: nat

subsection \<open>The graphics context\<close>

text \<open>
  Modelled from the spec: the graphics context and \<open>VertexBuffer\<close> (\<open>gl/context\<close>,
  \<open>gl/vertex_buffer\<close> are not among these sources). The spec lists buffer creation and
  destruction as the context's primitives. The context is the state these calls act on: it
  numbers the buffers it creates and records every call, so that the number of times a
  buffer's \<open>destroy\<close> operation was invoked can be read off the record.
\<close>

record VertexBuffer =
  vb_id :: nat
  vb_array :: StructArray
  vb_attributes :: "StructArrayMember list"
  vb_dynamicDraw :: bool

datatype gl_call = CreateVertexBuffer nat | DestroyVertexBuffer nat

record Context =
  nextBuffer :: nat
  calls :: "gl_call list"

definition createVertexBuffer ::
  "Context \<Rightarrow> StructArray \<Rightarrow> StructArrayMember list \<Rightarrow> bool \<Rightarrow> VertexBuffer \<times> Context" where
  "createVertexBuffer context arr attributes dynamicDraw =
     (\<lparr>vb_id = nextBuffer context, vb_array = arr, vb_attributes = attributes,
        vb_dynamicDraw = dynamicDraw\<rparr>,
      context\<lparr>nextBuffer := Suc (nextBuffer context),
              calls := calls context @ [CreateVertexBuffer (nextBuffer context)]\<rparr>)"

definition VertexBuffer_destroy :: "VertexBuffer \<Rightarrow> Context \<Rightarrow> Context" where
  "VertexBuffer_destroy buffer context =
     context\<lparr>calls := calls context @ [DestroyVertexBuffer (vb_id buffer)]\<rparr>"

text \<open>How often the \<open>destroy\<close> operation of buffer \<open>i\<close> has been invoked.\<close>

definition destroy_count :: "Context \<Rightarrow> nat \<Rightarrow> nat" where
  "destroy_count context i = count_list (calls context) (DestroyVertexBuffer i)"

subsection \<open>Statistics\<close>

text \<open>\<open>statistics.max\<close> starts at \<open>-Infinity\<close> and is folded with \<open>Math.max\<close>.\<close>

datatype stat_number = MinusInfinity | Finite real

fun Math_max :: "stat_number \<Rightarrow> real \<Rightarrow> stat_number" where
  "Math_max MinusInfinity v = Finite v"
| "Math_max (Finite m) v = Finite (max m v)"

subsection \<open>ConstantBinder and CrossFadedConstantBinder\<close>

text \<open>
  Both classes store \<open>value\<close>, \<open>names\<close>, \<open>type\<close> and \<open>statistics\<close>; their
  \<open>populatePaintArray\<close>, \<open>updatePaintArray\<close>, \<open>upload\<close> and \<open>destroy\<close> have empty bodies.
\<close>

record ConstantBinder =
  cb_value :: PossiblyEvaluatedValue
  cb_names :: "string list"
  cb_type :: string
  cb_statistics :: stat_number

definition new_ConstantBinder ::
  "PossiblyEvaluatedValue \<Rightarrow> string list \<Rightarrow> string \<Rightarrow> ConstantBinder" where
  "new_ConstantBinder v names ty =
     \<lparr>cb_value = v, cb_names = names, cb_type = ty, cb_statistics = MinusInfinity\<rparr>"

subsection \<open>SourceExpressionBinder\<close>

record SourceExpressionBinder =
  sb_expression :: Expression
  sb_names :: "string list"
  sb_type :: string
  sb_statistics :: stat_number
  sb_paintVertexArray :: StructArray
  sb_paintVertexAttributes :: "StructArrayMember list"
  sb_paintVertexBuffer :: "VertexBuffer option"

definition new_SourceExpressionBinder ::
  "Expression \<Rightarrow> string list \<Rightarrow> string \<Rightarrow> StructArrayLayout \<Rightarrow> SourceExpressionBinder" where
  "new_SourceExpressionBinder expression names ty PaintVertexArray =
     \<lparr>sb_expression = expression, sb_names = names, sb_type = ty,
      sb_statistics = MinusInfinity,
      sb_paintVertexArray = new_StructArray PaintVertexArray,
      sb_paintVertexAttributes =
        map (\<lambda>name. \<lparr>m_name = ''a_'' @ name, m_type = ''Float32'',
                      m_components = (if ty = ''color'' then 2 else 1), m_offset = 0\<rparr>) names,
      sb_paintVertexBuffer = None\<rparr>"

definition SourceExpressionBinder_populatePaintArray ::
  "SourceExpressionBinder \<Rightarrow> nat \<Rightarrow> Feature \<Rightarrow> SourceExpressionBinder" where
  "SourceExpressionBinder_populatePaintArray this newLength feature =
     (let paintArray = sb_paintVertexArray this;
          start = length paintArray;
          paintArray = reserve paintArray newLength;
          v = evaluate (sb_expression this) 0 feature None
      in if sb_type this = ''color'' then
           (let color = packColor (the_color v)
            in this\<lparr>sb_paintVertexArray :=
                      emplaceBack_loop paintArray start newLength [fst color, snd color]\<rparr>)
         else
           this\<lparr>sb_paintVertexArray :=
                  emplaceBack_loop paintArray start newLength [Float (the_number v)],
                sb_statistics := Math_max (sb_statistics this) (the_number v)\<rparr>)"


text \<open>\<open>if (this.paintVertexArray)\<close> holds of every array object.\<close>

definition SourceExpressionBinder_upload ::
  "SourceExpressionBinder \<Rightarrow> Context \<Rightarrow> SourceExpressionBinder \<times> Context" where
  "SourceExpressionBinder_upload this context =
     (let (buffer, context') =
            createVertexBuffer context (sb_paintVertexArray this)
              (sb_paintVertexAttributes this) (isStateDependent (sb_expression this))
      in (this\<lparr>sb_paintVertexBuffer := Some buffer\<rparr>, context'))"

definition SourceExpressionBinder_destroy :: "SourceExpressionBinder \<Rightarrow> Context \<Rightarrow> Context" where
  "SourceExpressionBinder_destroy this context =
     (case sb_paintVertexBuffer this of
        Some buffer \<Rightarrow> VertexBuffer_destroy buffer context
      | None \<Rightarrow> context)"

subsection \<open>CrossFadedConstantBinder\<close>

record CrossFadedConstantBinder =
  xc_value :: PossiblyEvaluatedValue
  xc_names :: "string list"
  xc_type :: string
  xc_statistics :: stat_number

definition new_CrossFadedConstantBinder ::
  "PossiblyEvaluatedValue \<Rightarrow> string list \<Rightarrow> string \<Rightarrow> CrossFadedConstantBinder" where
  "new_CrossFadedConstantBinder v names ty =
     \<lparr>xc_value = v, xc_names = names, xc_type = ty, xc_statistics = MinusInfinity\<rparr>"

subsection \<open>CompositeExpressionBinder\<close>

record CompositeExpressionBinder =
  zb_expression :: Expression
  zb_names :: "string list"
  zb_type :: string
  zb_useIntegerZoom :: bool
  zb_zoom :: real
  zb_statistics :: stat_number
  zb_paintVertexArray :: StructArray
  zb_paintVertexAttributes :: "StructArrayMember list"
  zb_paintVertexBuffer :: "VertexBuffer option"

definition new_CompositeExpressionBinder ::
  "Expression \<Rightarrow> string list \<Rightarrow> string \<Rightarrow> bool \<Rightarrow> real \<Rightarrow> StructArrayLayout
     \<Rightarrow> CompositeExpressionBinder" where
  "new_CompositeExpressionBinder expression names ty useIntegerZoom zoom layout =
     \<lparr>zb_expression = expression, zb_names = names, zb_type = ty,
      zb_useIntegerZoom = useIntegerZoom, zb_zoom = zoom,
      zb_statistics = MinusInfinity,
      zb_paintVertexArray = new_StructArray layout,
      zb_paintVertexAttributes =
        map (\<lambda>name. \<lparr>m_name = ''a_'' @ name, m_type = ''Float32'',
                      m_components = (if ty = ''color'' then 4 else 2), m_offset = 0\<rparr>) names,
      zb_paintVertexBuffer = None\<rparr>"

definition CompositeExpressionBinder_populatePaintArray ::
  "CompositeExpressionBinder \<Rightarrow> nat \<Rightarrow> Feature \<Rightarrow> CompositeExpressionBinder" where
  "CompositeExpressionBinder_populatePaintArray this newLength feature =
     (let paintArray = zb_paintVertexArray this;
          start = length paintArray;
          paintArray = reserve paintArray newLength;
          vmin = evaluate (zb_expression this) (zb_zoom this) feature None;
          vmax = evaluate (zb_expression this) (zb_zoom this + 1) feature None
      in if zb_type this = ''color'' then
           (let minColor = packColor (the_color vmin);
                maxColor = packColor (the_color vmax)
            in this\<lparr>zb_paintVertexArray :=
                      emplaceBack_loop paintArray start newLength
                        [fst minColor, snd minColor, fst maxColor, snd maxColor]\<rparr>)
         else
           this\<lparr>zb_paintVertexArray :=
                  emplaceBack_loop paintArray start newLength
                    [Float (the_number vmin), Float (the_number vmax)],
                zb_statistics :=
                  Math_max (Math_max (zb_statistics this) (the_number vmin)) (the_number vmax)\<rparr>)"


definition CompositeExpressionBinder_upload ::
  "CompositeExpressionBinder \<Rightarrow> Context \<Rightarrow> CompositeExpressionBinder \<times> Context" where
  "CompositeExpressionBinder_upload this context =
     (let (buffer, context') =
            createVertexBuffer context (zb_paintVertexArray this)
              (zb_paintVertexAttributes this) (isStateDependent (zb_expression this))
      in (this\<lparr>zb_paintVertexBuffer := Some buffer\<rparr>, context'))"

definition CompositeExpressionBinder_destroy ::
  "CompositeExpressionBinder \<Rightarrow> Context \<Rightarrow> Context" where
  "CompositeExpressionBinder_destroy this context =
     (case zb_paintVertexBuffer this of
        Some buffer \<Rightarrow> VertexBuffer_destroy buffer context
      | None \<Rightarrow> context)"

text \<open>\<open>Math.floor(currentZoom)\<close> is the integer \<open>\<lfloor>currentZoom\<rfloor>\<close> as a number.\<close>

definition CompositeExpressionBinder_interpolationFactor ::
  "CompositeExpressionBinder \<Rightarrow> real \<Rightarrow> real" where
  "CompositeExpressionBinder_interpolationFactor this currentZoom =
     (if zb_useIntegerZoom this then
        expr_interpolationFactor (zb_expression this)
          (of_int \<lfloor>currentZoom\<rfloor>) (zb_zoom this) (zb_zoom this + 1)
      else
        expr_interpolationFactor (zb_expression this)
          currentZoom (zb_zoom this) (zb_zoom this + 1))"

subsection \<open>CrossFadedCompositeBinder\<close>

record CrossFadedCompositeBinder =
  xb_expression :: Expression
  xb_names :: "string list"
  xb_type :: string
  xb_useIntegerZoom :: bool
  xb_zoom :: real
  xb_statistics :: stat_number
  xb_zoomInPaintVertexArray :: StructArray
  xb_zoomOutPaintVertexArray :: StructArray
  xb_zoomInPaintVertexBuffer :: "VertexBuffer option"
  xb_zoomOutPaintVertexBuffer :: "VertexBuffer option"
  xb_paintVertexAttributes :: "StructArrayMember list"

definition new_CrossFadedCompositeBinder ::
  "Expression \<Rightarrow> string list \<Rightarrow> string \<Rightarrow> bool \<Rightarrow> real \<Rightarrow> StructArrayLayout
     \<Rightarrow> CrossFadedCompositeBinder" where
  "new_CrossFadedCompositeBinder expression names ty useIntegerZoom zoom PaintVertexArray =
     \<lparr>xb_expression = expression, xb_names = names, xb_type = ty,
      xb_useIntegerZoom = useIntegerZoom, xb_zoom = zoom,
      xb_statistics = MinusInfinity,
      xb_zoomInPaintVertexArray = new_StructArray PaintVertexArray,
      xb_zoomOutPaintVertexArray = new_StructArray PaintVertexArray,
      xb_zoomInPaintVertexBuffer = None,
      xb_zoomOutPaintVertexBuffer = None,
      xb_paintVertexAttributes =
        map (\<lambda>name. \<lparr>m_name = ''a_'' @ name, m_type = ''Uint16'',
                      m_components = 4, m_offset = 0\<rparr>) names\<rparr>"

text \<open>
  The eight components written for one vertex: the rectangle of the image at the binder's
  zoom, then the rectangle of the image one zoom level away.
\<close>

definition pattern_element :: "ImagePosition \<Rightarrow> ImagePosition \<Rightarrow> component list" where
  "pattern_element imageMid imageOther =
     [Float (fst (ip_tl imageMid)), Float (snd (ip_tl imageMid)),
      Float (fst (ip_br imageMid)), Float (snd (ip_br imageMid)),
      Float (fst (ip_tl imageOther)), Float (snd (ip_tl imageOther)),
      Float (fst (ip_br imageOther)), Float (snd (ip_br imageOther))]"

text \<open>\<open>imagePositions[name]\<close> for the evaluated image name.\<close>

definition image_lookup ::
  "(string \<times> ImagePosition) list \<Rightarrow> val \<Rightarrow> ImagePosition member" where
  "image_lookup positions name = get_member positions (the_string name)"

text \<open>
  The arguments of the two \<open>emplaceBack\<close> (or \<open>emplace\<close>) calls of one loop iteration:
  the elements for the zoom-in and the zoom-out array. They read \<open>image.tl[0]\<close> and so on:
  on an inherited member \<open>image.tl\<close> is \<open>undefined\<close>, and indexing it throws.
\<close>

fun own_images :: "'a member \<times> 'a member \<times> 'a member \<Rightarrow> ('a \<times> 'a \<times> 'a) option" where
  "own_images (Own iMin, Own iMid, Own iMax) = Some (iMin, iMid, iMax)"
| "own_images other = None"

definition pattern_elements ::
  "ImagePosition member \<Rightarrow> ImagePosition member \<Rightarrow> ImagePosition member
     \<Rightarrow> error + (component list \<times> component list)" where
  "pattern_elements imageMin imageMid imageMax =
     (case own_images (imageMin, imageMid, imageMax) of
        Some (iMin, iMid, iMax) \<Rightarrow>
          Inr (pattern_element iMid iMin, pattern_element iMid iMax)
      | None \<Rightarrow> Inl TypeError)"

text \<open>
  The source's loop appends to the zoom-in and the zoom-out array in turn; the two arrays
  are separate objects, so each receives the same appends as in a loop of its own. The
  loop body is reached, and its arguments evaluated, only when the loop runs at least once.
  An exception leaves the method without result (\<open>Inl\<close>).
\<close>

definition CrossFadedCompositeBinder_populatePaintArray ::
  "CrossFadedCompositeBinder \<Rightarrow> nat \<Rightarrow> Feature \<Rightarrow> ImagePositions
     \<Rightarrow> error + CrossFadedCompositeBinder" where
  "CrossFadedCompositeBinder_populatePaintArray this len feature imagePositions =
     (let zoomInArray = xb_zoomInPaintVertexArray this;
          zoomOutArray = xb_zoomOutPaintVertexArray this;
          start = length zoomInArray;
          zoomInArray = reserve zoomInArray len;
          zoomOutArray = reserve zoomOutArray len;
          vmin = evaluate (xb_expression this) (xb_zoom this - 1) feature None;
          vmid = evaluate (xb_expression this) (xb_zoom this) feature None;
          vmax = evaluate (xb_expression this) (xb_zoom this + 1) feature None
      in case imagePositions of
           None \<Rightarrow> Inr this
         | Some positions \<Rightarrow>
             (let imageMin = image_lookup positions vmin;
                  imageMid = image_lookup positions vmid;
                  imageMax = image_lookup positions vmax
              in if \<not> truthy_member imageMin \<or> \<not> truthy_member imageMid
                      \<or> \<not> truthy_member imageMax then Inr this
                 else if start < len then
                   (case pattern_elements imageMin imageMid imageMax of
                      Inl err \<Rightarrow> Inl err
                    | Inr (zoomInElement, zoomOutElement) \<Rightarrow>
                        Inr (this\<lparr>xb_zoomInPaintVertexArray :=
                                    emplaceBack_loop zoomInArray start len zoomInElement,
                                  xb_zoomOutPaintVertexArray :=
                                    emplaceBack_loop zoomOutArray start len zoomOutElement\<rparr>))
                 else Inr this))"


text \<open>
  \<open>getVertexBuffer\<close> returns a buffer only when both buffers exist; otherwise the function
  falls off its end and the result is \<open>undefined\<close>, here \<open>None\<close>.
\<close>

definition CrossFadedCompositeBinder_getVertexBuffer ::
  "CrossFadedCompositeBinder \<Rightarrow> CrossfadeParameters \<Rightarrow> VertexBuffer option" where
  "CrossFadedCompositeBinder_getVertexBuffer this crossfade =
     (case (xb_zoomOutPaintVertexBuffer this, xb_zoomInPaintVertexBuffer this) of
        (Some zoomOutBuffer, Some zoomInBuffer) \<Rightarrow>
          Some (if fromScale crossfade = 2 then zoomInBuffer else zoomOutBuffer)
      | _ \<Rightarrow> None)"

definition CrossFadedCompositeBinder_upload ::
  "CrossFadedCompositeBinder \<Rightarrow> Context \<Rightarrow> CrossFadedCompositeBinder \<times> Context" where
  "CrossFadedCompositeBinder_upload this context =
     (let (zoomInBuffer, context1) =
            createVertexBuffer context (xb_zoomInPaintVertexArray this)
              (xb_paintVertexAttributes this) (isStateDependent (xb_expression this));
          (zoomOutBuffer, context2) =
            createVertexBuffer context1 (xb_zoomOutPaintVertexArray this)
              (xb_paintVertexAttributes this) (isStateDependent (xb_expression this))
      in (this\<lparr>xb_zoomInPaintVertexBuffer := Some zoomInBuffer,
               xb_zoomOutPaintVertexBuffer := Some zoomOutBuffer\<rparr>, context2))"

definition CrossFadedCompositeBinder_destroy ::
  "CrossFadedCompositeBinder \<Rightarrow> Context \<Rightarrow> Context" where
  "CrossFadedCompositeBinder_destroy this context =
     (let context1 = (case xb_zoomOutPaintVertexBuffer this of
                        Some buffer \<Rightarrow> VertexBuffer_destroy buffer context
                      | None \<Rightarrow> context)
      in case xb_zoomInPaintVertexBuffer this of
           Some buffer \<Rightarrow> VertexBuffer_destroy buffer context1
         | None \<Rightarrow> context1)"

subsection \<open>The Binder interface\<close>

datatype Binder =
    Constant ConstantBinder
  | CrossFadedConstant CrossFadedConstantBinder
  | Source SourceExpressionBinder
  | Composite CompositeExpressionBinder
  | CrossFadedComposite CrossFadedCompositeBinder

text \<open>
  \<open>binder.populatePaintArray(length, feature, imagePositions)\<close>, dispatched on the class.
  Only \<open>CrossFadedCompositeBinder\<close> reads its third argument, and only it can throw.
\<close>

fun Binder_populatePaintArray ::
  "Binder \<Rightarrow> nat \<Rightarrow> Feature \<Rightarrow> ImagePositions \<Rightarrow> error + Binder" where
  "Binder_populatePaintArray (Constant cb) len feature imagePositions = Inr (Constant cb)"
| "Binder_populatePaintArray (CrossFadedConstant xc) len feature imagePositions =
     Inr (CrossFadedConstant xc)"
| "Binder_populatePaintArray (Source sb) len feature imagePositions =
     Inr (Source (SourceExpressionBinder_populatePaintArray sb len feature))"
| "Binder_populatePaintArray (Composite zb) len feature imagePositions =
     Inr (Composite (CompositeExpressionBinder_populatePaintArray zb len feature))"
| "Binder_populatePaintArray (CrossFadedComposite xb) len feature imagePositions =
     (case CrossFadedCompositeBinder_populatePaintArray xb len feature imagePositions of
        Inl err \<Rightarrow> Inl err
      | Inr xb' \<Rightarrow> Inr (CrossFadedComposite xb'))"


fun Binder_upload :: "Binder \<Rightarrow> Context \<Rightarrow> Binder \<times> Context" where
  "Binder_upload (Constant cb) context = (Constant cb, context)"
| "Binder_upload (CrossFadedConstant xc) context = (CrossFadedConstant xc, context)"
| "Binder_upload (Source sb) context =
     (let (sb', context') = SourceExpressionBinder_upload sb context in (Source sb', context'))"
| "Binder_upload (Composite zb) context =
     (let (zb', context') = CompositeExpressionBinder_upload zb context
      in (Composite zb', context'))"
| "Binder_upload (CrossFadedComposite xb) context =
     (let (xb', context') = CrossFadedCompositeBinder_upload xb context
      in (CrossFadedComposite xb', context'))"

text \<open>No \<open>destroy\<close> method assigns a field of its binder: only the context changes.\<close>

fun Binder_destroy :: "Binder \<Rightarrow> Context \<Rightarrow> Context" where
  "Binder_destroy (Constant cb) context = context"
| "Binder_destroy (CrossFadedConstant xc) context = context"
| "Binder_destroy (Source sb) context = SourceExpressionBinder_destroy sb context"
| "Binder_destroy (Composite zb) context = CompositeExpressionBinder_destroy zb context"
| "Binder_destroy (CrossFadedComposite xb) context = CrossFadedCompositeBinder_destroy xb context"

text \<open>The paint arrays a binder owns, and the buffers it holds.\<close>

fun paint_arrays :: "Binder \<Rightarrow> StructArray list" where
  "paint_arrays (Constant cb) = []"
| "paint_arrays (CrossFadedConstant xc) = []"
| "paint_arrays (Source sb) = [sb_paintVertexArray sb]"
| "paint_arrays (Composite zb) = [zb_paintVertexArray zb]"
| "paint_arrays (CrossFadedComposite xb) =
     [xb_zoomInPaintVertexArray xb, xb_zoomOutPaintVertexArray xb]"

fun held_buffers :: "Binder \<Rightarrow> VertexBuffer list" where
  "held_buffers (Constant cb) = []"
| "held_buffers (CrossFadedConstant xc) = []"
| "held_buffers (Source sb) = (case sb_paintVertexBuffer sb of Some vb \<Rightarrow> [vb] | None \<Rightarrow> [])"
| "held_buffers (Composite zb) = (case zb_paintVertexBuffer zb of Some vb \<Rightarrow> [vb] | None \<Rightarrow> [])"
| "held_buffers (CrossFadedComposite xb) =
     (case xb_zoomOutPaintVertexBuffer xb of Some vb \<Rightarrow> [vb] | None \<Rightarrow> []) @
     (case xb_zoomInPaintVertexBuffer xb of Some vb \<Rightarrow> [vb] | None \<Rightarrow> [])"

subsection \<open>Attribute names and layouts\<close>

text \<open>
  \<open>s.replace(pattern, replacement)\<close> with a string pattern replaces the first occurrence
  only; \<open>s.replace(/-/g, '_')\<close> replaces every hyphen.
\<close>

fun replace_first :: "string \<Rightarrow> string \<Rightarrow> string \<Rightarrow> string" where
  "replace_first pat rep [] = (if pat = [] then rep else [])"
| "replace_first pat rep (c # cs) =
     (if prefix pat (c # cs) then rep @ drop (length pat) (c # cs)
      else c # replace_first pat rep cs)"

definition replace_hyphens :: "string \<Rightarrow> string" where
  "replace_hyphens s = map (\<lambda>c. if c = CHR ''-'' then CHR ''_'' else c) s"

definition attributeNameExceptions :: "(string \<times> string list) list" where
  "attributeNameExceptions =
     [(''text-opacity'', [''opacity'']),
      (''icon-opacity'', [''opacity'']),
      (''text-color'', [''fill_color'']),
      (''icon-color'', [''fill_color'']),
      (''text-halo-color'', [''halo_color'']),
      (''icon-halo-color'', [''halo_color'']),
      (''text-halo-blur'', [''halo_blur'']),
      (''icon-halo-blur'', [''halo_blur'']),
      (''text-halo-width'', [''halo_width'']),
      (''icon-halo-width'', [''halo_width'']),
      (''line-gap-width'', [''gapwidth'']),
      (''line-pattern'', [''pattern_to'', ''pattern_from'']),
      (''fill-pattern'', [''pattern_to'', ''pattern_from''])]"

definition paintAttributeName :: "string \<Rightarrow> string \<Rightarrow> string list" where
  "paintAttributeName property ty =
     (case map_of attributeNameExceptions property of
        Some names \<Rightarrow> names
      | None \<Rightarrow> [replace_hyphens (replace_first (ty @ ''-'') [] property)])"

text \<open>
  The binder type argument of \<open>layoutType\<close> is the literal \<open>'source'\<close> or \<open>'composite'\<close>.
  The tables of this subsection are read under paint property names and property types of
  the style specification.
\<close>

datatype binderType = source | composite

definition getLayoutException :: "string \<Rightarrow> (binderType \<Rightarrow> StructArrayLayout) option" where
  "getLayoutException property =
     map_of [(''line-pattern'', (\<lambda>bt. case bt of source \<Rightarrow> PatternLayoutArray
                                               | composite \<Rightarrow> PatternLayoutArray)),
             (''fill-pattern'', (\<lambda>bt. case bt of source \<Rightarrow> PatternLayoutArray
                                               | composite \<Rightarrow> PatternLayoutArray))] property"

definition defaultLayouts :: "string \<Rightarrow> (binderType \<Rightarrow> StructArrayLayout) option" where
  "defaultLayouts =
     map_of [(''color'', (\<lambda>bt. case bt of source \<Rightarrow> StructArrayLayout2f8
                                       | composite \<Rightarrow> StructArrayLayout4f16)),
             (''number'', (\<lambda>bt. case bt of source \<Rightarrow> StructArrayLayout1f4
                                        | composite \<Rightarrow> StructArrayLayout2f8))]"

text \<open>
  Reading a property of \<open>undefined\<close> throws: \<open>defaultLayouts[type][binderType]\<close> is a
  \<open>TypeError\<close> when \<open>type\<close> is neither \<open>color\<close> nor \<open>number\<close>. The right operand of
  \<open>||\<close> is evaluated only when the property has no layout exception.
\<close>

definition layoutType :: "string \<Rightarrow> string \<Rightarrow> binderType \<Rightarrow> error + StructArrayLayout" where
  "layoutType property ty bt =
     (case getLayoutException property of
        Some layoutException \<Rightarrow> Inr (layoutException bt)
      | None \<Rightarrow>
          (case defaultLayouts ty of
             Some layouts \<Rightarrow> Inr (layouts bt)
           | None \<Rightarrow> Inl TypeError))"

subsection \<open>The style layer\<close>

text \<open>
  The style layer is a collaborator outside this file. What \<open>createDynamic\<close> and
  \<open>updatePaintArrays\<close> read of it: the layer's \<open>type\<close>, and for each key of
  \<open>layer.paint._values\<close>, in enumeration order, the object \<open>layer.paint.get(property)\<close>.
  That object is a \<open>PossiblyEvaluatedPropertyValue\<close> (with its \<open>property\<close> and its
  \<open>value\<close>, which is of kind \<open>constant\<close>, \<open>source\<close> or \<open>composite\<close>) or something
  else. \<open>supportsPropertyExpression(value.property.specification)\<close> is the field
  \<open>supportsPropertyExpression\<close>.
\<close>

record Property =
  specification_type :: string
  supportsPropertyExpression :: bool
  useIntegerZoom :: bool
  binder_mode :: string

datatype PaintValue =
    PossiblyEvaluatedPropertyValue Property PossiblyEvaluatedValue
  | OtherValue

record Layer =
  layer_type :: string
  paint_values :: "(string \<times> PaintValue) list"

subsection \<open>ProgramConfiguration\<close>

record FeaturePaintBufferRecord =
  p_index :: nat
  p_start :: nat
  p_end :: nat

text \<open>
  \<open>binders\<close> and \<open>_idMap\<close> are objects used as dictionaries: association lists of their
  own properties in insertion order, written with \<open>AList.update\<close> (a new key goes to the
  end, an existing key keeps its place). \<open>_idMap\<close> is read with \<open>get_member\<close>, since its
  keys are feature ids. The keys of \<open>binders\<close> are the paint property names of the style
  specification, enumerated with \<open>for ... in\<close>, which visits own properties only.
\<close>

record ProgramConfiguration =
  binders :: "(string \<times> Binder) list"
  cacheKey :: string
  buffers :: "VertexBuffer list"
  idMap :: "(string \<times> FeaturePaintBufferRecord list) list"
  bufferOffset :: nat

definition new_ProgramConfiguration :: ProgramConfiguration where
  "new_ProgramConfiguration =
     \<lparr>binders = [], cacheKey = [], buffers = [], idMap = [], bufferOffset = 0\<rparr>"

text \<open>
  One iteration of the loop of \<open>createDynamic\<close>: \<open>None\<close> is \<open>continue\<close>, otherwise the
  binder stored under the property and the fragment pushed onto \<open>keys\<close>.
\<close>

definition createDynamic_binder ::
  "string \<Rightarrow> real \<Rightarrow> (string \<Rightarrow> bool) \<Rightarrow> string \<Rightarrow> PaintValue
     \<Rightarrow> error + (Binder \<times> string) option" where
  "createDynamic_binder layerType zoom filterProperties property v =
     (if \<not> filterProperties property then Inr None
      else case v of
        OtherValue \<Rightarrow> Inr None
      | PossiblyEvaluatedPropertyValue prop vv \<Rightarrow>
          if \<not> supportsPropertyExpression prop then Inr None
          else
            (let names = paintAttributeName property layerType;
                 ty = specification_type prop
             in if binder_mode prop = ''cross-faded'' then
                  (case vv of
                     ConstantKind c \<Rightarrow>
                       Inr (Some (CrossFadedConstant (new_CrossFadedConstantBinder vv names ty),
                                  ''/u_'' @ property))
                   | SourceKind e \<Rightarrow>
                       (case layoutType property ty source of
                          Inl err \<Rightarrow> Inl err
                        | Inr layout \<Rightarrow>
                            Inr (Some (CrossFadedComposite
                                         (new_CrossFadedCompositeBinder e names ty
                                            (useIntegerZoom prop) zoom layout),
                                       ''/a_'' @ property)))
                   | CompositeKind e \<Rightarrow>
                       (case layoutType property ty source of
                          Inl err \<Rightarrow> Inl err
                        | Inr layout \<Rightarrow>
                            Inr (Some (CrossFadedComposite
                                         (new_CrossFadedCompositeBinder e names ty
                                            (useIntegerZoom prop) zoom layout),
                                       ''/a_'' @ property))))
                else
                  (case vv of
                     ConstantKind c \<Rightarrow>
                       Inr (Some (Constant (new_ConstantBinder vv names ty), ''/u_'' @ property))
                   | SourceKind e \<Rightarrow>
                       (case layoutType property ty source of
                          Inl err \<Rightarrow> Inl err
                        | Inr layout \<Rightarrow>
                            Inr (Some (Source (new_SourceExpressionBinder e names ty layout),
                                       ''/a_'' @ property)))
                   | CompositeKind e \<Rightarrow>
                       (case layoutType property ty composite of
                          Inl err \<Rightarrow> Inl err
                        | Inr layout \<Rightarrow>
                            Inr (Some (Composite
                                         (new_CompositeExpressionBinder e names ty
                                            (useIntegerZoom prop) zoom layout),
                                       ''/z_'' @ property))))))"

text \<open>The loop over the paint values, carrying \<open>self.binders\<close> and \<open>keys\<close>.\<close>

fun createDynamic_loop ::
  "string \<Rightarrow> real \<Rightarrow> (string \<Rightarrow> bool) \<Rightarrow> (string \<times> PaintValue) list
     \<Rightarrow> (string \<times> Binder) list \<Rightarrow> string list
     \<Rightarrow> error + ((string \<times> Binder) list \<times> string list)" where
  "createDynamic_loop layerType zoom filterProperties [] bs keys = Inr (bs, keys)"
| "createDynamic_loop layerType zoom filterProperties ((property, v) # rest) bs keys =
     (case createDynamic_binder layerType zoom filterProperties property v of
        Inl err \<Rightarrow> Inl err
      | Inr None \<Rightarrow> createDynamic_loop layerType zoom filterProperties rest bs keys
      | Inr (Some (bnd, key)) \<Rightarrow>
          createDynamic_loop layerType zoom filterProperties rest
            (AList.update property bnd bs) (keys @ [key]))"

text \<open>
  \<open>keys.sort()\<close> without a comparator orders strings by their code units, the
  lexicographic order of \<open>string\<close>; \<open>join('')\<close> concatenates.
\<close>

definition createDynamic ::
  "Layer \<Rightarrow> real \<Rightarrow> (string \<Rightarrow> bool) \<Rightarrow> error + ProgramConfiguration" where
  "createDynamic layer zoom filterProperties =
     (case createDynamic_loop (layer_type layer) zoom filterProperties (paint_values layer)
             (binders new_ProgramConfiguration) [] of
        Inl err \<Rightarrow> Inl err
      | Inr (bs, keys) \<Rightarrow>
          Inr (new_ProgramConfiguration\<lparr>binders := bs, cacheKey := concat (sort keys)\<rparr>))"

subsubsection \<open>populatePaintArrays\<close>

text \<open>\<open>if (feature.id)\<close>: \<open>undefined\<close>, the number 0 and the empty string are falsy.\<close>

fun truthy :: "feature_id option \<Rightarrow> bool" where
  "truthy None = False"
| "truthy (Some (NumberId n)) = (n \<noteq> 0)"
| "truthy (Some (StringId s)) = (s \<noteq> [])"

text \<open>\<open>String(feature.id)\<close>: a number in decimal notation, a string as it is.\<close>

fun decimal :: "nat \<Rightarrow> string" where
  "decimal n =
     (if n < 10 then [''0123456789'' ! n]
      else decimal (n div 10) @ [''0123456789'' ! (n mod 10)])"

fun String :: "feature_id \<Rightarrow> string" where
  "String (NumberId n) = decimal n"
| "String (StringId s) = s"

definition is_CrossFadedCompositeBinder :: "Binder \<Rightarrow> bool" where
  "is_CrossFadedCompositeBinder bnd = (case bnd of CrossFadedComposite xb \<Rightarrow> True | _ \<Rightarrow> False)"

text \<open>
  The body of the loop over the binders: only a \<open>CrossFadedCompositeBinder\<close> receives
  \<open>imagePositions\<close>, every other binder receives the empty dictionary \<open>{}\<close>.
\<close>

definition populatePaintArrays_binder ::
  "nat \<Rightarrow> Feature \<Rightarrow> ImagePositions \<Rightarrow> Binder \<Rightarrow> error + Binder" where
  "populatePaintArrays_binder newLength feature imagePositions bnd =
     (if is_CrossFadedCompositeBinder bnd then
        Binder_populatePaintArray bnd newLength feature imagePositions
      else
        Binder_populatePaintArray bnd newLength feature (Some []))"

text \<open>\<open>for (const property in this.binders)\<close>: the first exception ends the loop.\<close>

fun populatePaintArrays_binders ::
  "nat \<Rightarrow> Feature \<Rightarrow> ImagePositions \<Rightarrow> (string \<times> Binder) list
     \<Rightarrow> error + (string \<times> Binder) list" where
  "populatePaintArrays_binders newLength feature imagePositions [] = Inr []"
| "populatePaintArrays_binders newLength feature imagePositions ((property, bnd) # rest) =
     (case populatePaintArrays_binder newLength feature imagePositions bnd of
        Inl err \<Rightarrow> Inl err
      | Inr bnd' \<Rightarrow>
          (case populatePaintArrays_binders newLength feature imagePositions rest of
             Inl err \<Rightarrow> Inl err
           | Inr rest' \<Rightarrow> Inr ((property, bnd') # rest')))"

text \<open>
  The statements under \<open>if (feature.id)\<close>. \<open>this._idMap[featureId] || []\<close> is the stored
  array, a new array when there is none, and the inherited member when the id names one;
  that member has no \<open>push\<close>, and calling it throws.
\<close>

definition record_feature ::
  "string \<Rightarrow> FeaturePaintBufferRecord
     \<Rightarrow> (string \<times> FeaturePaintBufferRecord list) list
     \<Rightarrow> error + (string \<times> FeaturePaintBufferRecord list) list" where
  "record_feature featureId pos idm =
     (case get_member idm featureId of
        Own posArray \<Rightarrow> Inr (AList.update featureId (posArray @ [pos]) idm)
      | Undefined \<Rightarrow> Inr (AList.update featureId ([] @ [pos]) idm)
      | Inherited \<Rightarrow> Inl TypeError)"

text \<open>
  An exception leaves the call without result (\<open>Inl\<close>): what it had already changed is
  not kept in the model.
\<close>

definition populatePaintArrays ::
  "nat \<Rightarrow> Feature \<Rightarrow> nat \<Rightarrow> ImagePositions \<Rightarrow> ProgramConfiguration
     \<Rightarrow> error + ProgramConfiguration" where
  "populatePaintArrays newLength feature index imagePositions this =
     (case populatePaintArrays_binders newLength feature imagePositions (binders this) of
        Inl err \<Rightarrow> Inl err
      | Inr binders' \<Rightarrow>
          (case (if truthy (f_id feature) then
                   record_feature (String (the (f_id feature)))
                     \<lparr>p_index = index, p_start = bufferOffset this, p_end = newLength\<rparr>
                     (idMap this)
                 else Inr (idMap this)) of
             Inl err \<Rightarrow> Inl err
           | Inr idMap' \<Rightarrow>
               Inr (this\<lparr>binders := binders', idMap := idMap', bufferOffset := newLength\<rparr>)))"

text \<open>
  A sequence of calls, each given by its four arguments; an exception ends the sequence.
\<close>

type_synonym populate_call = "nat \<times> Feature \<times> nat \<times> ImagePositions"

fun populate_sequence ::
  "populate_call list \<Rightarrow> ProgramConfiguration \<Rightarrow> error + ProgramConfiguration" where
  "populate_sequence [] this = Inr this"
| "populate_sequence ((newLength, feature, index, imagePositions) # cs) this =
     (case populatePaintArrays newLength feature index imagePositions this of
        Inl err \<Rightarrow> Inl err
      | Inr after \<Rightarrow> populate_sequence cs after)"

subsubsection \<open>updatePaintArrays\<close>


text \<open>The \<open>expression\<close> field of the three classes that have one.\<close>

fun Binder_expression :: "Binder \<Rightarrow> Expression option" where
  "Binder_expression (Constant cb) = None"
| "Binder_expression (CrossFadedConstant xc) = None"
| "Binder_expression (Source sb) = Some (sb_expression sb)"
| "Binder_expression (Composite zb) = Some (zb_expression zb)"
| "Binder_expression (CrossFadedComposite xb) = Some (xb_expression xb)"







subsubsection \<open>upload, destroy, updatePatternPaintBuffers\<close>

fun upload_binders ::
  "(string \<times> Binder) list \<Rightarrow> Context \<Rightarrow> (string \<times> Binder) list \<times> Context" where
  "upload_binders [] context = ([], context)"
| "upload_binders ((property, bnd) # rest) context =
     (let (bnd', context1) = Binder_upload bnd context;
          (rest', context2) = upload_binders rest context1
      in ((property, bnd') # rest', context2))"

text \<open>The buffer of a source or composite binder, when it has one.\<close>

fun paintVertexBuffer :: "Binder \<Rightarrow> VertexBuffer list" where
  "paintVertexBuffer (Source sb) =
     (case sb_paintVertexBuffer sb of Some vb \<Rightarrow> [vb] | None \<Rightarrow> [])"
| "paintVertexBuffer (Composite zb) =
     (case zb_paintVertexBuffer zb of Some vb \<Rightarrow> [vb] | None \<Rightarrow> [])"
| "paintVertexBuffer other = []"

definition upload :: "ProgramConfiguration \<Rightarrow> Context \<Rightarrow> ProgramConfiguration \<times> Context" where
  "upload this context =
     (let (bs, context') = upload_binders (binders this) context
      in (this\<lparr>binders := bs,
               buffers := concat (map (\<lambda>(property, bnd). paintVertexBuffer bnd) bs)\<rparr>,
          context'))"

definition destroy :: "ProgramConfiguration \<Rightarrow> Context \<Rightarrow> Context" where
  "destroy this context = fold (\<lambda>(property, bnd). Binder_destroy bnd) (binders this) context"

definition updatePatternPaintBuffers ::
  "CrossfadeParameters \<Rightarrow> ProgramConfiguration \<Rightarrow> ProgramConfiguration" where
  "updatePatternPaintBuffers crossfade this =
     this\<lparr>buffers :=
            concat (map (\<lambda>(property, bnd).
                           case bnd of
                             CrossFadedComposite xb \<Rightarrow>
                               (case CrossFadedCompositeBinder_getVertexBuffer xb crossfade of
                                  Some vb \<Rightarrow> [vb] | None \<Rightarrow> [])
                           | _ \<Rightarrow> paintVertexBuffer bnd)
                      (binders this))\<rparr>"

text \<open>\<open>n\<close> successive calls of a binder's \<open>destroy()\<close>.\<close>

definition destroy_times :: "nat \<Rightarrow> Binder \<Rightarrow> Context \<Rightarrow> Context" where
  "destroy_times n bnd context = (Binder_destroy bnd ^^ n) context"

subsection \<open>Notions used in the statements\<close>

text \<open>
  The three image positions a cross-faded composite binder looks up for a feature: those
  of the image names its expression evaluates to at zoom - 1, zoom and zoom + 1.
\<close>

definition resolved_images ::
  "Expression \<Rightarrow> real \<Rightarrow> Feature \<Rightarrow> FeatureState option \<Rightarrow> (string \<times> ImagePosition) list
     \<Rightarrow> ImagePosition member \<times> ImagePosition member \<times> ImagePosition member" where
  "resolved_images expression zoom feature featureState positions =
     (image_lookup positions (evaluate expression (zoom - 1) feature featureState),
      image_lookup positions (evaluate expression zoom feature featureState),
      image_lookup positions (evaluate expression (zoom + 1) feature featureState))"

text \<open>
  A call of \<open>populatePaintArrays\<close> finds the images of a binder: for a cross-faded
  composite binder, \<open>imagePositions\<close> is there and holds all three resolved images as own
  entries; every other binder needs none.
\<close>

fun images_present :: "Binder \<Rightarrow> Feature \<Rightarrow> ImagePositions \<Rightarrow> bool" where
  "images_present (CrossFadedComposite xb) feature None = False"
| "images_present (CrossFadedComposite xb) feature (Some positions) =
     (case own_images (resolved_images (xb_expression xb) (xb_zoom xb) feature None positions) of
        Some images \<Rightarrow> True
      | None \<Rightarrow> False)"
| "images_present other feature imagePositions = True"

text \<open>
  Three looked-up images that cannot make the loop body throw: one of them is \<open>undefined\<close>
  (the guard returns), or all three are own entries.
\<close>

definition images_safe ::
  "ImagePosition member \<times> ImagePosition member \<times> ImagePosition member \<Rightarrow> bool" where
  "images_safe = (\<lambda>(imageMin, imageMid, imageMax).
     \<not> truthy_member imageMin \<or> \<not> truthy_member imageMid \<or> \<not> truthy_member imageMax \<or>
     (case own_images (imageMin, imageMid, imageMax) of Some images \<Rightarrow> True | None \<Rightarrow> False))"

text \<open>The zoom of a cross-faded composite binder.\<close>

fun pattern_zoom :: "Binder \<Rightarrow> real option" where
  "pattern_zoom (CrossFadedComposite xb) = Some (xb_zoom xb)"
| "pattern_zoom other = None"

text \<open>
  A call of \<open>populatePaintArrays\<close> that cannot throw: the images of every cross-faded
  composite binder are safe, and the feature's id, when it is truthy, does not name a
  member of \<open>Object.prototype\<close>.
\<close>

definition populate_safe :: "(string \<times> Binder) list \<Rightarrow> populate_call \<Rightarrow> bool" where
  "populate_safe bs = (\<lambda>(newLength, feature, index, imagePositions).
     list_all (\<lambda>(property, bnd).
                 case (Binder_expression bnd, pattern_zoom bnd, imagePositions) of
                   (Some expression, Some zoom, Some positions) \<Rightarrow>
                     images_safe (resolved_images expression zoom feature None positions)
                 | _ \<Rightarrow> True) bs
     \<and> (\<not> truthy (f_id feature)
        \<or> String (the (f_id feature)) \<notin> set Object_prototype_members))"

text \<open>
  The record a call of \<open>populatePaintArrays\<close> appends to \<open>_idMap\<close>, read off the map after
  the call (the last record stored under the feature's id), and the records appended by a
  sequence of calls, in call order, up to the first call that throws.
\<close>

definition appended_record ::
  "Feature \<Rightarrow> ProgramConfiguration \<Rightarrow> FeaturePaintBufferRecord list" where
  "appended_record feature after =
     (if truthy (f_id feature) then
        (case map_of (idMap after) (String (the (f_id feature))) of
           Some (pos # ps) \<Rightarrow> [last (pos # ps)]
         | _ \<Rightarrow> [])
      else [])"

fun appended_records ::
  "populate_call list \<Rightarrow> ProgramConfiguration \<Rightarrow> FeaturePaintBufferRecord list" where
  "appended_records [] this = []"
| "appended_records ((newLength, feature, index, imagePositions) # cs) this =
     (case populatePaintArrays newLength feature index imagePositions this of
        Inl err \<Rightarrow> []
      | Inr after \<Rightarrow> appended_record feature after @ appended_records cs after)"

text \<open>
  The stored buffer offset after each call of a sequence, up to the first call that throws.
\<close>

fun offsets :: "populate_call list \<Rightarrow> ProgramConfiguration \<Rightarrow> nat list" where
  "offsets [] this = []"
| "offsets ((newLength, feature, index, imagePositions) # cs) this =
     (case populatePaintArrays newLength feature index imagePositions this of
        Inl err \<Rightarrow> []
      | Inr after \<Rightarrow> bufferOffset after # offsets cs after)"










text \<open>The key fragments \<open>createDynamic\<close> pushes for a list of paint values.\<close>

definition key_fragments ::
  "string \<Rightarrow> real \<Rightarrow> (string \<Rightarrow> bool) \<Rightarrow> (string \<times> PaintValue) list \<Rightarrow> string list" where
  "key_fragments layerType zoom filterProperties vs =
     concat (map (\<lambda>(property, v).
                    case createDynamic_binder layerType zoom filterProperties property v of
                      Inr (Some (bnd, key)) \<Rightarrow> [key]
                    | _ \<Rightarrow> []) vs)"

subsection \<open>Example inputs\<close>

text \<open>
  Modelled from the spec: the interpolation factor of a linear zoom expression (the
  expression evaluator is not among these sources). For the value function \<open>f(z) = z\<close>
  between zoom 5 and zoom 6 the spec expects the factor 0.5 at zoom 5.5: the factor is the
  position of the input between the lower and the upper zoom, as a fraction.
\<close>

definition linear_interpolationFactor :: "real \<Rightarrow> real \<Rightarrow> real \<Rightarrow> real" where
  "linear_interpolationFactor input lower upper = (input - lower) / (upper - lower)"

text \<open>
  The value function \<open>f(z) = z\<close> with linear interpolation. It is state-dependent: a
  feature state whose first entry is a number adds that number to the value.
\<close>

definition example_zoom_expression :: Expression where
  "example_zoom_expression =
     \<lparr>evaluate = (\<lambda>zoom feature featureState.
                    case featureState of
                      Some ((name, Number boost) # rest) \<Rightarrow> Number (zoom + boost)
                    | _ \<Rightarrow> Number zoom),
      isStateDependent = True,
      expr_interpolationFactor = linear_interpolationFactor\<rparr>"

text \<open>A pattern expression that names the image \<open>stripes\<close> at every zoom.\<close>

definition example_pattern_expression :: Expression where
  "example_pattern_expression =
     \<lparr>evaluate = (\<lambda>zoom feature featureState. StringValue ''stripes''),
      isStateDependent = True,
      expr_interpolationFactor = (\<lambda>input lower upper. 0)\<rparr>"

definition example_positions :: ImagePositions where
  "example_positions =
     Some [(''stripes'', \<lparr>ip_tl = (0, 0), ip_br = (16, 16), ip_pixelRatio = 1\<rparr>)]"

definition example_feature :: "feature_id option \<Rightarrow> Feature" where
  "example_feature i = \<lparr>f_id = i, f_properties = []\<rparr>"

definition example_context :: Context where
  "example_context = \<lparr>nextBuffer = 0, calls = []\<rparr>"

definition example_pattern_binder :: CrossFadedCompositeBinder where
  "example_pattern_binder =
     new_CrossFadedCompositeBinder example_pattern_expression [''pattern_to'', ''pattern_from'']
       ''string'' False 5 PatternLayoutArray"

definition example_composite_binder :: CompositeExpressionBinder where
  "example_composite_binder =
     new_CompositeExpressionBinder example_zoom_expression [''opacity''] ''number'' False 5
       StructArrayLayout2f8"

definition example_source_binder :: SourceExpressionBinder where
  "example_source_binder =
     new_SourceExpressionBinder example_zoom_expression [''opacity''] ''number''
       StructArrayLayout1f4"

definition example_property :: "string \<Rightarrow> string \<Rightarrow> Property" where
  "example_property ty mode =
     \<lparr>specification_type = ty, supportsPropertyExpression = True, useIntegerZoom = False,
      binder_mode = mode\<rparr>"

text \<open>
  A fill layer with a constant colour, a data-driven opacity, a data-driven pattern and one
  paint value that is no \<open>PossiblyEvaluatedPropertyValue\<close>.
\<close>

definition example_layer :: Layer where
  "example_layer =
     \<lparr>layer_type = ''fill'',
      paint_values =
        [(''fill-color'',
          PossiblyEvaluatedPropertyValue (example_property ''color'' ''data-driven'')
            (ConstantKind (ColorValue \<lparr>col_r = 1, col_g = 0, col_b = 0, col_a = 1\<rparr>))),
         (''fill-opacity'',
          PossiblyEvaluatedPropertyValue (example_property ''number'' ''data-driven'')
            (SourceKind example_zoom_expression)),
         (''fill-pattern'',
          PossiblyEvaluatedPropertyValue (example_property ''string'' ''cross-faded'')
            (CompositeKind example_pattern_expression)),
         (''fill-antialias'', OtherValue)]\<rparr>"

text \<open>The configuration \<open>createDynamic\<close> builds for the example layer at zoom 5.\<close>

definition example_configuration :: ProgramConfiguration where
  "example_configuration =
     \<lparr>binders =
        [(''fill-color'',
          Constant (new_ConstantBinder
                      (ConstantKind
                         (ColorValue \<lparr>col_r = 1, col_g = 0, col_b = 0, col_a = 1\<rparr>))
                      [''color''] ''color'')),
         (''fill-opacity'', Source example_source_binder),
         (''fill-pattern'', CrossFadedComposite example_pattern_binder)],
      cacheKey = ''/a_fill-opacity/a_fill-pattern/u_fill-color'',
      buffers = [], idMap = [], bufferOffset = 0\<rparr>"

text \<open>
  Three features of one vertex each: the first two carry the ids \<open>a\<close> and 7, the third
  has no id. All three find the image \<open>stripes\<close>.
\<close>

definition example_calls :: "populate_call list" where
  "example_calls =
     [(1, example_feature (Some (StringId ''a'')), 0, example_positions),
      (2, example_feature (Some (NumberId 7)), 1, example_positions),
      (3, example_feature None, 2, example_positions)]"

text \<open>The configuration the three calls leave.\<close>

definition example_populated :: ProgramConfiguration where
  "example_populated =
     \<lparr>binders =
        [(''fill-color'',
          Constant (new_ConstantBinder
                      (ConstantKind
                         (ColorValue \<lparr>col_r = 1, col_g = 0, col_b = 0, col_a = 1\<rparr>))
                      [''color''] ''color'')),
         (''fill-opacity'',
          Source (example_source_binder
                    \<lparr>sb_statistics := Finite 0,
                     sb_paintVertexArray := [[Float 0], [Float 0], [Float 0]]\<rparr>)),
         (''fill-pattern'',
          CrossFadedComposite
            (example_pattern_binder
               \<lparr>xb_zoomInPaintVertexArray :=
                  replicate 3 [Float 0, Float 0, Float 16, Float 16,
                               Float 0, Float 0, Float 16, Float 16],
                xb_zoomOutPaintVertexArray :=
                  replicate 3 [Float 0, Float 0, Float 16, Float 16,
                               Float 0, Float 0, Float 16, Float 16]\<rparr>))],
      cacheKey = ''/a_fill-opacity/a_fill-pattern/u_fill-color'',
      buffers = [],
      idMap = [(''a'', [\<lparr>p_index = 0, p_start = 0, p_end = 1\<rparr>]),
               (''7'', [\<lparr>p_index = 1, p_start = 1, p_end = 2\<rparr>])],
      bufferOffset = 3\<rparr>"





section \<open>Properties\<close>

subsection \<open>The array loops\<close>

lemma fold_emplaceBack:
  "fold (\<lambda>i acc. emplaceBack acc vs) is arr = arr @ replicate (length is) vs"
  by (induction "is" arbitrary: arr) (simp_all add: emplaceBack_def replicate_append_same)

lemma emplaceBack_loop_eq:
  "emplaceBack_loop arr start n vs = arr @ replicate (n - start) vs"
  by (simp add: emplaceBack_loop_def fold_emplaceBack)







subsection \<open>Buffer selection of the cross-faded composite binder\<close>

text \<open>
  Claim C7. A \<open>CrossFadedCompositeBinder\<close> that holds both the zoom-in and the zoom-out
  buffer answers \<open>getVertexBuffer(crossfade)\<close> with the zoom-in buffer when
  \<open>crossfade.fromScale\<close> is 2 and with the zoom-out buffer otherwise.
\<close>

theorem getVertexBuffer_selects:
  assumes "xb_zoomInPaintVertexBuffer this = Some zoomInBuffer"
    and "xb_zoomOutPaintVertexBuffer this = Some zoomOutBuffer"
  shows "CrossFadedCompositeBinder_getVertexBuffer this crossfade =
           Some (if fromScale crossfade = 2 then zoomInBuffer else zoomOutBuffer)"
  using assms by (simp add: CrossFadedCompositeBinder_getVertexBuffer_def)

text \<open>
  After \<open>upload\<close> on a fresh context the example binder holds buffer 0 (zoom-in) and
  buffer 1 (zoom-out); \<open>fromScale = 2\<close> selects buffer 0, \<open>fromScale = 1/2\<close> buffer 1.
\<close>

theorem getVertexBuffer_selects_witness:
  "vb_id (the (CrossFadedCompositeBinder_getVertexBuffer
      (fst (CrossFadedCompositeBinder_upload example_pattern_binder example_context))
      \<lparr>fromScale = 2, toScale = 1, cf_t = 0\<rparr>)) = 0
   \<and> vb_id (the (CrossFadedCompositeBinder_getVertexBuffer
      (fst (CrossFadedCompositeBinder_upload example_pattern_binder example_context))
      \<lparr>fromScale = 1/2, toScale = 1, cf_t = 0\<rparr>)) = 1"
proof -
  let ?up = "fst (CrossFadedCompositeBinder_upload example_pattern_binder example_context)"
  obtain zoomIn where i: "xb_zoomInPaintVertexBuffer ?up = Some zoomIn" and "vb_id zoomIn = 0"
    by (simp add: CrossFadedCompositeBinder_upload_def createVertexBuffer_def example_context_def)
  obtain zoomOut where o: "xb_zoomOutPaintVertexBuffer ?up = Some zoomOut" and "vb_id zoomOut = 1"
    by (simp add: CrossFadedCompositeBinder_upload_def createVertexBuffer_def example_context_def)
  show ?thesis
    using getVertexBuffer_selects [OF i o, of "\<lparr>fromScale = 2, toScale = 1, cf_t = 0\<rparr>"]
      getVertexBuffer_selects [OF i o, of "\<lparr>fromScale = 1/2, toScale = 1, cf_t = 0\<rparr>"]
      \<open>vb_id zoomIn = 0\<close> \<open>vb_id zoomOut = 1\<close>
    by simp
qed

subsection \<open>The interpolation factor of the composite binder\<close>

text \<open>
  Claim C8. For a \<open>CompositeExpressionBinder\<close> constructed at zoom \<open>Z\<close>,
  \<open>interpolationFactor(currentZoom)\<close> is the interpolation factor of the underlying
  expression over the range from \<open>Z\<close> to \<open>Z + 1\<close>, taken at \<open>floor(currentZoom)\<close> when
  \<open>useIntegerZoom\<close> is set and at \<open>currentZoom\<close> itself otherwise. For an expression with
  the linear factor, at \<open>Z = 5\<close> and without \<open>useIntegerZoom\<close>, the factor at zoom 5.5
  is 0.5.
\<close>

theorem interpolationFactor_zoom:
  "CompositeExpressionBinder_interpolationFactor this currentZoom =
     expr_interpolationFactor (zb_expression this)
       (if zb_useIntegerZoom this then of_int \<lfloor>currentZoom\<rfloor> else currentZoom)
       (zb_zoom this) (zb_zoom this + 1)
   \<and> (expr_interpolationFactor (zb_expression this) = linear_interpolationFactor
        \<and> zb_zoom this = 5 \<and> \<not> zb_useIntegerZoom this
      \<longrightarrow> CompositeExpressionBinder_interpolationFactor this 5.5 = 0.5)"
  by (simp add: CompositeExpressionBinder_interpolationFactor_def linear_interpolationFactor_def)

text \<open>
  The example binder is constructed at zoom 5 on \<open>f(z) = z\<close>: its factor at 5.5 is 0.5,
  and 0 once \<open>useIntegerZoom\<close> is set (the factor is then taken at zoom 5).
\<close>

theorem interpolationFactor_zoom_witness:
  "CompositeExpressionBinder_interpolationFactor example_composite_binder 5.5 = 0.5
   \<and> CompositeExpressionBinder_interpolationFactor
        (example_composite_binder\<lparr>zb_useIntegerZoom := True\<rparr>) 5.5 = 0"
proof -
  have e: "expr_interpolationFactor (zb_expression example_composite_binder)
             = linear_interpolationFactor"
    and z: "zb_zoom example_composite_binder = 5"
    and u: "\<not> zb_useIntegerZoom example_composite_binder"
    by (simp_all add: example_composite_binder_def new_CompositeExpressionBinder_def
          example_zoom_expression_def)
  have f: "\<lfloor>5.5::real\<rfloor> = 5" by linarith
  from interpolationFactor_zoom [of example_composite_binder "5.5"] e z u
  have 1: "CompositeExpressionBinder_interpolationFactor example_composite_binder 5.5 = 0.5"
    by blast
  from interpolationFactor_zoom [of "example_composite_binder\<lparr>zb_useIntegerZoom := True\<rparr>" "5.5"]
  have 2: "CompositeExpressionBinder_interpolationFactor
        (example_composite_binder\<lparr>zb_useIntegerZoom := True\<rparr>) 5.5 = 0"
    using e z f by (simp add: linear_interpolationFactor_def)
  from 1 2 show ?thesis by simp
qed

subsection \<open>The image guard of the cross-faded composite binder\<close>

lemma own_images_Some:
  "(own_images t = Some (iMin, iMid, iMax)) = (t = (Own iMin, Own iMid, Own iMax))"
  by (cases t rule: own_images.cases) simp_all

lemma own_images_truthy:
  "own_images (imageMin, imageMid, imageMax) = Some images \<Longrightarrow>
   truthy_member imageMin \<and> truthy_member imageMid \<and> truthy_member imageMax"
  by (cases "(imageMin, imageMid, imageMax)" rule: own_images.cases) simp_all

lemma populatePaintArray_no_positions:
  "CrossFadedCompositeBinder_populatePaintArray this len feature None = Inr this"
  by (simp add: CrossFadedCompositeBinder_populatePaintArray_def Let_def)

lemma populatePaintArray_cases:
  assumes "resolved_images (xb_expression this) (xb_zoom this) feature None positions
             = (imageMin, imageMid, imageMax)"
  shows "CrossFadedCompositeBinder_populatePaintArray this len feature (Some positions) =
     (if \<not> truthy_member imageMin \<or> \<not> truthy_member imageMid \<or> \<not> truthy_member imageMax
      then Inr this
      else if length (xb_zoomInPaintVertexArray this) < len then
        (case own_images (imageMin, imageMid, imageMax) of
           None \<Rightarrow> Inl TypeError
         | Some (iMin, iMid, iMax) \<Rightarrow>
             Inr (this\<lparr>xb_zoomInPaintVertexArray :=
                         xb_zoomInPaintVertexArray this
                         @ replicate (len - length (xb_zoomInPaintVertexArray this))
                             (pattern_element iMid iMin),
                       xb_zoomOutPaintVertexArray :=
                         xb_zoomOutPaintVertexArray this
                         @ replicate (len - length (xb_zoomInPaintVertexArray this))
                             (pattern_element iMid iMax)\<rparr>))
      else Inr this)"
  using assms
  by (simp add: CrossFadedCompositeBinder_populatePaintArray_def Let_def resolved_images_def
        pattern_elements_def reserve_def emplaceBack_loop_eq split: option.splits)



subsection \<open>Reading dictionaries\<close>

lemma get_member_Own: "(get_member object key = Own v) = (map_of object key = Some v)"
  by (auto simp: get_member_def split: option.splits)

lemma get_member_not_inherited:
  "key \<notin> set Object_prototype_members \<Longrightarrow> get_member object key \<noteq> Inherited"
  by (auto simp: get_member_def split: option.splits)

lemma get_member_empty:
  "get_member [] key = (if key \<in> set Object_prototype_members then Inherited else Undefined)"
  by (simp add: get_member_def)

lemma constructor_inherited: "''constructor'' \<in> set Object_prototype_members"
  by (simp add: Object_prototype_members_def)

subsection \<open>The example configuration\<close>

lemma example_createDynamic:
  "createDynamic example_layer 5 (\<lambda>property. True) = Inr example_configuration"
  by (simp add: Let_def createDynamic_def example_layer_def example_configuration_def
        createDynamic_binder_def example_property_def paintAttributeName_def
        attributeNameExceptions_def replace_hyphens_def layoutType_def getLayoutException_def
        defaultLayouts_def new_ProgramConfiguration_def example_source_binder_def
        example_pattern_binder_def)

lemma example_populate_sequence:
  "populate_sequence example_calls example_configuration = Inr example_populated"
  by (simp add: example_populated_def example_calls_def
        populatePaintArrays_def example_configuration_def populatePaintArrays_binder_def
        is_CrossFadedCompositeBinder_def Let_def record_feature_def get_member_def
        Object_prototype_members_def
        SourceExpressionBinder_populatePaintArray_def
        CrossFadedCompositeBinder_populatePaintArray_def pattern_elements_def
        example_source_binder_def example_pattern_binder_def
        new_SourceExpressionBinder_def new_CrossFadedCompositeBinder_def new_StructArray_def
        example_zoom_expression_def example_pattern_expression_def
        example_positions_def image_lookup_def pattern_element_def reserve_def
        emplaceBack_loop_eq example_feature_def numeral_3_eq_3)

subsection \<open>Paint array lengths after population\<close>

text \<open>
  A returning loop over the binders has populated every binder, under its property name.
\<close>

lemma populatePaintArrays_binders_Inr:
  "populatePaintArrays_binders newLength feature imagePositions bs = Inr bs' \<Longrightarrow>
   list_all2 (\<lambda>(property, bnd) (property', bnd').
                property' = property \<and>
                populatePaintArrays_binder newLength feature imagePositions bnd = Inr bnd')
     bs bs'"
proof (induction bs arbitrary: bs')
  case Nil
  then show ?case by simp
next
  case (Cons pb bs)
  obtain property bnd where pb: "pb = (property, bnd)" by (cases pb)
  from Cons.prems pb obtain bnd' rest' where
    "populatePaintArrays_binder newLength feature imagePositions bnd = Inr bnd'"
    "populatePaintArrays_binders newLength feature imagePositions bs = Inr rest'"
    "bs' = (property, bnd') # rest'"
    by (auto split: sum.splits)
  with Cons.IH pb show ?case by simp
qed

lemma populatePaintArrays_Inr:
  assumes "populatePaintArrays newLength feature index imagePositions this = Inr after"
  shows "populatePaintArrays_binders newLength feature imagePositions (binders this)
           = Inr (binders after)"
    and "bufferOffset after = newLength"
    and "cacheKey after = cacheKey this" and "buffers after = buffers this"
    and "(if truthy (f_id feature) then
            record_feature (String (the (f_id feature)))
              \<lparr>p_index = index, p_start = bufferOffset this, p_end = newLength\<rparr> (idMap this)
          else Inr (idMap this)) = Inr (idMap after)"
  using assms by (auto simp: populatePaintArrays_def split: sum.splits if_splits)

lemma populatePaintArrays_nth:
  assumes "populatePaintArrays newLength feature index imagePositions this = Inr after"
    and "k < length (binders this)"
  shows "k < length (binders after)"
    and "populatePaintArrays_binder newLength feature imagePositions (snd (binders this ! k))
           = Inr (snd (binders after ! k))"
proof -
  note l = populatePaintArrays_binders_Inr [OF populatePaintArrays_Inr(1) [OF assms(1)]]
  from l assms(2) show "k < length (binders after)"
    by (simp add: list_all2_lengthD)
  from list_all2_nthD [OF l assms(2)]
  show "populatePaintArrays_binder newLength feature imagePositions (snd (binders this ! k))
           = Inr (snd (binders after ! k))"
    by (auto split: prod.splits)
qed

text \<open>
  One returning call brings every paint array of a binder to the requested length, when
  the arrays were not longer before and the binder finds its images.
\<close>

lemma populatePaintArrays_binder_lengths:
  assumes "images_present bnd feature imagePositions"
    and "\<forall>arr \<in> set (paint_arrays bnd). length arr = m"
    and "m \<le> newLength"
    and "populatePaintArrays_binder newLength feature imagePositions bnd = Inr bnd'"
  shows "\<forall>arr \<in> set (paint_arrays bnd'). length arr = newLength"
proof (cases bnd)
  case (CrossFadedComposite xb)
  from assms(1) CrossFadedComposite obtain positions where
    p: "imagePositions = Some positions" by (cases imagePositions) auto
  with assms(1) CrossFadedComposite obtain iMin iMid iMax where
    "own_images (resolved_images (xb_expression xb) (xb_zoom xb) feature None positions)
       = Some (iMin, iMid, iMax)"
    by (auto split: option.splits)
  then have r: "resolved_images (xb_expression xb) (xb_zoom xb) feature None positions
                  = (Own iMin, Own iMid, Own iMax)"
    by (simp add: own_images_Some)
  from assms(4) CrossFadedComposite p obtain xb' where
    xb': "CrossFadedCompositeBinder_populatePaintArray xb newLength feature (Some positions)
            = Inr xb'" and b': "bnd' = CrossFadedComposite xb'"
    by (auto simp: populatePaintArrays_binder_def is_CrossFadedCompositeBinder_def
          split: sum.splits)
  from assms(2) CrossFadedComposite have
    m: "length (xb_zoomInPaintVertexArray xb) = m" "length (xb_zoomOutPaintVertexArray xb) = m"
    by simp_all
  from xb' [unfolded populatePaintArray_cases [OF r]] m assms(3)
  have "length (xb_zoomInPaintVertexArray xb') = newLength
        \<and> length (xb_zoomOutPaintVertexArray xb') = newLength"
    by (auto split: if_splits)
  with b' show ?thesis by simp
next
  case (Source sb)
  with assms show ?thesis
    by (auto simp: populatePaintArrays_binder_def is_CrossFadedCompositeBinder_def
          SourceExpressionBinder_populatePaintArray_def Let_def reserve_def emplaceBack_loop_eq)
next
  case (Composite zb)
  with assms show ?thesis
    by (auto simp: populatePaintArrays_binder_def is_CrossFadedCompositeBinder_def
          CompositeExpressionBinder_populatePaintArray_def Let_def reserve_def
          emplaceBack_loop_eq)
next
  case (Constant cb)
  with assms show ?thesis
    by (auto simp: populatePaintArrays_binder_def is_CrossFadedCompositeBinder_def)
next
  case (CrossFadedConstant xc)
  with assms show ?thesis
    by (auto simp: populatePaintArrays_binder_def is_CrossFadedCompositeBinder_def)
qed

text \<open>Population changes neither the expression nor the zoom of a binder.\<close>

lemma populatePaintArray_keeps:
  assumes "CrossFadedCompositeBinder_populatePaintArray xb len feature imagePositions = Inr xb'"
  shows "xb_expression xb' = xb_expression xb \<and> xb_zoom xb' = xb_zoom xb"
proof (cases imagePositions)
  case None
  with assms show ?thesis by (simp add: populatePaintArray_no_positions)
next
  case (Some positions)
  obtain imageMin imageMid imageMax where
    r: "resolved_images (xb_expression xb) (xb_zoom xb) feature None positions
          = (imageMin, imageMid, imageMax)"
    by (cases "resolved_images (xb_expression xb) (xb_zoom xb) feature None positions") auto
  from assms [unfolded Some populatePaintArray_cases [OF r]] show ?thesis
    by (auto split: if_splits option.splits)
qed

lemma populatePaintArrays_binder_keeps:
  assumes "populatePaintArrays_binder newLength feature imagePositions bnd = Inr bnd'"
  shows "Binder_expression bnd' = Binder_expression bnd \<and> pattern_zoom bnd' = pattern_zoom bnd"
proof (cases bnd)
  case (CrossFadedComposite xb)
  with assms obtain xb' where
    "CrossFadedCompositeBinder_populatePaintArray xb newLength feature imagePositions = Inr xb'"
    "bnd' = CrossFadedComposite xb'"
    by (auto simp: populatePaintArrays_binder_def is_CrossFadedCompositeBinder_def
          split: sum.splits)
  with populatePaintArray_keeps CrossFadedComposite show ?thesis by fastforce
next
  case (Source sb)
  with assms show ?thesis
    by (auto simp: populatePaintArrays_binder_def is_CrossFadedCompositeBinder_def
          SourceExpressionBinder_populatePaintArray_def Let_def)
next
  case (Composite zb)
  with assms show ?thesis
    by (auto simp: populatePaintArrays_binder_def is_CrossFadedCompositeBinder_def
          CompositeExpressionBinder_populatePaintArray_def Let_def)
next
  case (Constant cb)
  with assms show ?thesis
    by (auto simp: populatePaintArrays_binder_def is_CrossFadedCompositeBinder_def)
next
  case (CrossFadedConstant xc)
  with assms show ?thesis
    by (auto simp: populatePaintArrays_binder_def is_CrossFadedCompositeBinder_def)
qed

lemma images_present_keeps:
  assumes "Binder_expression bnd' = Binder_expression bnd"
    and "pattern_zoom bnd' = pattern_zoom bnd"
  shows "images_present bnd' feature imagePositions = images_present bnd feature imagePositions"
  using assms by (cases bnd; cases bnd'; cases imagePositions) simp_all

lemma populate_sequence_lengths:
  assumes "sorted (map fst cs)" and "cs \<noteq> []" and "k < length (binders this)"
    and "\<forall>arr \<in> set (paint_arrays (snd (binders this ! k))). length arr = m"
    and "m \<le> fst (hd cs)"
    and "\<forall>(newLength, feature, index, imagePositions) \<in> set cs.
           images_present (snd (binders this ! k)) feature imagePositions"
    and "populate_sequence cs this = Inr this'"
  shows "\<forall>arr \<in> set (paint_arrays (snd (binders this' ! k))). length arr = fst (last cs)"
  using assms
proof (induction cs arbitrary: this m)
  case Nil
  then show ?case by simp
next
  case (Cons c cs)
  obtain newLength feature index imagePositions
    where c: "c = (newLength, feature, index, imagePositions)"
    by (cases c) auto
  from Cons.prems(7) c obtain after where
    call: "populatePaintArrays newLength feature index imagePositions this = Inr after"
    and seq: "populate_sequence cs after = Inr this'"
    by (auto split: sum.splits)
  let ?bnd = "snd (binders this ! k)"
  note k = populatePaintArrays_nth(1) [OF call Cons.prems(3)]
  note bnd = populatePaintArrays_nth(2) [OF call Cons.prems(3)]
  have present: "images_present ?bnd feature imagePositions"
    using Cons.prems(6) c by auto
  have len: "\<forall>arr \<in> set (paint_arrays (snd (binders after ! k))). length arr = newLength"
    using populatePaintArrays_binder_lengths [OF present Cons.prems(4) _ bnd] Cons.prems(5) c
    by simp
  show ?case
  proof (cases "cs = []")
    case True
    then show ?thesis using len seq c by simp
  next
    case False
    have "sorted (map fst cs)" using Cons.prems(1) by simp
    moreover have "newLength \<le> fst (hd cs)"
      using Cons.prems(1) False c by (cases cs) auto
    moreover have "images_present (snd (binders after ! k)) f i = images_present ?bnd f i"
      for f i
      using populatePaintArrays_binder_keeps [OF bnd] by (intro images_present_keeps) simp_all
    then have "\<forall>(newLength', feature', index', imagePositions') \<in> set cs.
           images_present (snd (binders after ! k)) feature' imagePositions'"
      using Cons.prems(6) by auto
    ultimately have
      "\<forall>arr \<in> set (paint_arrays (snd (binders this' ! k))). length arr = fst (last cs)"
      using Cons.IH [OF _ False k len _ _ seq] by blast
    then show ?thesis using False by simp
  qed
qed

text \<open>A sequence of calls returns when every call is safe.\<close>

lemma populatePaintArray_returns:
  assumes "images_safe (resolved_images (xb_expression xb) (xb_zoom xb) feature None positions)"
  shows "\<exists>xb'. CrossFadedCompositeBinder_populatePaintArray xb len feature (Some positions)
                 = Inr xb'"
proof -
  obtain imageMin imageMid imageMax where
    r: "resolved_images (xb_expression xb) (xb_zoom xb) feature None positions
          = (imageMin, imageMid, imageMax)"
    by (cases "resolved_images (xb_expression xb) (xb_zoom xb) feature None positions") auto
  from assms r show ?thesis
    by (auto simp: populatePaintArray_cases [OF r] images_safe_def split: option.splits)
qed

lemma populatePaintArrays_binder_returns:
  assumes "case (Binder_expression bnd, pattern_zoom bnd, imagePositions) of
             (Some expression, Some zoom, Some positions) \<Rightarrow>
               images_safe (resolved_images expression zoom feature None positions)
           | _ \<Rightarrow> True"
  shows "\<exists>bnd'. populatePaintArrays_binder newLength feature imagePositions bnd = Inr bnd'"
proof (cases bnd)
  case (CrossFadedComposite xb)
  show ?thesis
  proof (cases imagePositions)
    case None
    with CrossFadedComposite show ?thesis
      by (simp add: populatePaintArrays_binder_def is_CrossFadedCompositeBinder_def
            populatePaintArray_no_positions)
  next
    case (Some positions)
    with assms CrossFadedComposite have
      "images_safe (resolved_images (xb_expression xb) (xb_zoom xb) feature None positions)"
      by simp
    from populatePaintArray_returns [OF this, of newLength] CrossFadedComposite Some
    show ?thesis
      by (auto simp: populatePaintArrays_binder_def is_CrossFadedCompositeBinder_def)
  qed
qed (simp_all add: populatePaintArrays_binder_def is_CrossFadedCompositeBinder_def)

lemma populatePaintArrays_binders_returns:
  assumes "list_all (\<lambda>(property, bnd).
                 case (Binder_expression bnd, pattern_zoom bnd, imagePositions) of
                   (Some expression, Some zoom, Some positions) \<Rightarrow>
                     images_safe (resolved_images expression zoom feature None positions)
                 | _ \<Rightarrow> True) bs"
  shows "\<exists>bs'. populatePaintArrays_binders newLength feature imagePositions bs = Inr bs'"
  using assms
proof (induction bs)
  case Nil
  then show ?case by simp
next
  case (Cons pb bs)
  obtain property bnd where pb: "pb = (property, bnd)" by (cases pb)
  from Cons.prems pb have
    "case (Binder_expression bnd, pattern_zoom bnd, imagePositions) of
       (Some expression, Some zoom, Some positions) \<Rightarrow>
         images_safe (resolved_images expression zoom feature None positions)
     | _ \<Rightarrow> True"
    by simp
  from populatePaintArrays_binder_returns [OF this]
  obtain bnd' where "populatePaintArrays_binder newLength feature imagePositions bnd = Inr bnd'"
    by blast
  moreover from Cons.prems have "list_all (\<lambda>(property, bnd).
                 case (Binder_expression bnd, pattern_zoom bnd, imagePositions) of
                   (Some expression, Some zoom, Some positions) \<Rightarrow>
                     images_safe (resolved_images expression zoom feature None positions)
                 | _ \<Rightarrow> True) bs"
    by simp
  from Cons.IH [OF this] obtain rest' where
    "populatePaintArrays_binders newLength feature imagePositions bs = Inr rest'" by blast
  ultimately show ?case using pb by simp
qed

lemma populatePaintArrays_returns:
  assumes "populate_safe (binders this) (newLength, feature, index, imagePositions)"
  shows "\<exists>after. populatePaintArrays newLength feature index imagePositions this = Inr after"
proof -
  from assms have "list_all (\<lambda>(property, bnd).
                 case (Binder_expression bnd, pattern_zoom bnd, imagePositions) of
                   (Some expression, Some zoom, Some positions) \<Rightarrow>
                     images_safe (resolved_images expression zoom feature None positions)
                 | _ \<Rightarrow> True) (binders this)"
    by (simp add: populate_safe_def)
  from populatePaintArrays_binders_returns [OF this] obtain bs' where
    bs': "populatePaintArrays_binders newLength feature imagePositions (binders this) = Inr bs'"
    by blast
  show ?thesis
  proof (cases "truthy (f_id feature)")
    case False
    with bs' show ?thesis by (simp add: populatePaintArrays_def)
  next
    case True
    with assms have "String (the (f_id feature)) \<notin> set Object_prototype_members"
      by (simp add: populate_safe_def)
    then have "get_member (idMap this) (String (the (f_id feature))) \<noteq> Inherited"
      by (rule get_member_not_inherited)
    then obtain idm where
      "record_feature (String (the (f_id feature)))
         \<lparr>p_index = index, p_start = bufferOffset this, p_end = newLength\<rparr> (idMap this)
       = Inr idm"
      by (cases "get_member (idMap this) (String (the (f_id feature)))")
         (simp_all add: record_feature_def)
    with bs' True show ?thesis by (simp add: populatePaintArrays_def)
  qed
qed

lemma list_all_keeps:
  "list_all2 (\<lambda>(property, bnd) (property', bnd').
      Binder_expression bnd' = Binder_expression bnd \<and> pattern_zoom bnd' = pattern_zoom bnd)
     bs bs' \<Longrightarrow>
   list_all (\<lambda>(property, bnd). P (Binder_expression bnd) (pattern_zoom bnd)) bs'
   = list_all (\<lambda>(property, bnd). P (Binder_expression bnd) (pattern_zoom bnd)) bs"
  by (induction bs bs' rule: list_all2_induct) auto

lemma populate_safe_keeps:
  assumes "populatePaintArrays newLength feature index imagePositions this = Inr after"
  shows "populate_safe (binders after) c = populate_safe (binders this) c"
proof -
  obtain n f i imgs where c: "c = (n, f, i, imgs)" by (cases c) auto
  note l = populatePaintArrays_binders_Inr [OF populatePaintArrays_Inr(1) [OF assms]]
  have "list_all2 (\<lambda>(property, bnd) (property', bnd').
          Binder_expression bnd' = Binder_expression bnd \<and> pattern_zoom bnd' = pattern_zoom bnd)
        (binders this) (binders after)"
    using l by (rule list_all2_mono) (auto dest: populatePaintArrays_binder_keeps)
  from list_all_keeps [OF this, of "\<lambda>e z. case (e, z, imgs) of
                   (Some expression, Some zoom, Some positions) \<Rightarrow>
                     images_safe (resolved_images expression zoom f None positions)
                 | _ \<Rightarrow> True"]
  show ?thesis by (simp add: populate_safe_def c)
qed

lemma populate_sequence_returns:
  "\<forall>c \<in> set cs. populate_safe (binders this) c \<Longrightarrow>
   \<exists>this'. populate_sequence cs this = Inr this'"
proof (induction cs arbitrary: this)
  case Nil
  then show ?case by simp
next
  case (Cons c cs)
  obtain newLength feature index imagePositions
    where c: "c = (newLength, feature, index, imagePositions)"
    by (cases c) auto
  from Cons.prems c populatePaintArrays_returns obtain after where
    call: "populatePaintArrays newLength feature index imagePositions this = Inr after"
    by fastforce
  from Cons.prems have "\<forall>c \<in> set cs. populate_safe (binders after) c"
    by (simp add: populate_safe_keeps [OF call])
  from Cons.IH [OF this] call c show ?case by simp
qed

text \<open>
  Claim C1, as the code has it. Take a sequence of \<open>populatePaintArrays\<close> calls whose
  requested lengths do not decrease, on a configuration whose paint arrays are empty, and a
  binder that finds its images at every call (every binder but a
  \<open>CrossFadedCompositeBinder\<close> does; that one needs all three resolved pattern names as
  entries of \<open>imagePositions\<close>). When the sequence returns, every paint array of the
  binder has the last requested length; for \<open>N\<close> features of one vertex each, that is
  \<open>N\<close> elements. The sequence returns when every call is safe: no feature id and no
  resolved pattern name falls on a member that the dictionaries inherit.
\<close>

theorem populate_sequence_final_length:
  assumes "sorted (map fst cs)" and "cs \<noteq> []" and "k < length (binders this)"
    and "\<forall>arr \<in> set (paint_arrays (snd (binders this ! k))). arr = []"
    and "\<forall>(newLength, feature, index, imagePositions) \<in> set cs.
           images_present (snd (binders this ! k)) feature imagePositions"
  shows "(populate_sequence cs this = Inr this' \<longrightarrow>
           (\<forall>arr \<in> set (paint_arrays (snd (binders this' ! k))).
              length arr = fst (last cs) \<and> (map fst cs = [1..<Suc N] \<longrightarrow> length arr = N)))
         \<and> ((\<forall>c \<in> set cs. populate_safe (binders this) c) \<longrightarrow>
              (\<exists>this'. populate_sequence cs this = Inr this'))"
proof (intro conjI impI)
  assume r: "populate_sequence cs this = Inr this'"
  have "\<forall>arr \<in> set (paint_arrays (snd (binders this ! k))). length arr = 0"
    using assms(4) by simp
  from populate_sequence_lengths [OF assms(1,2,3) this _ assms(5) r]
  have len: "\<forall>arr \<in> set (paint_arrays (snd (binders this' ! k))). length arr = fst (last cs)"
    by simp
  have "fst (last cs) = N" if "map fst cs = [1..<Suc N]"
  proof -
    have "fst (last cs) = last (map fst cs)" using assms(2) by (simp add: last_map)
    also have "\<dots> = last [1..<Suc N]" using that by simp
    also have "\<dots> = N" using that assms(2) by (cases N) auto
    finally show ?thesis .
  qed
  with len show "\<forall>arr \<in> set (paint_arrays (snd (binders this' ! k))).
              length arr = fst (last cs) \<and> (map fst cs = [1..<Suc N] \<longrightarrow> length arr = N)"
    by simp
next
  assume "\<forall>c \<in> set cs. populate_safe (binders this) c"
  then show "\<exists>this'. populate_sequence cs this = Inr this'"
    by (rule populate_sequence_returns)
qed

text \<open>
  Claim C1 as stated fails. With the empty dictionary \<open>{}\<close> as \<open>imagePositions\<close>, one call
  that requests length 1 returns and leaves both arrays of the cross-faded composite binder
  at length 0. And when a call requests less than the call before (2, then 1), the array of
  the source binder keeps length 2.
\<close>

theorem populate_length_counterexample:
  "map_sum id (\<lambda>this'. map length (paint_arrays (snd (binders this' ! 2))))
     (populate_sequence [(1, example_feature None, 0, Some [])] example_configuration)
   = Inr [0, 0]
   \<and> map_sum id (\<lambda>this'. map length (paint_arrays (snd (binders this' ! 1))))
     (populate_sequence [(2, example_feature None, 0, example_positions),
                         (1, example_feature None, 1, example_positions)]
        example_configuration)
   = Inr [2]"
  by (simp add: populatePaintArrays_def example_configuration_def
        populatePaintArrays_binder_def is_CrossFadedCompositeBinder_def Let_def
        SourceExpressionBinder_populatePaintArray_def
        CrossFadedCompositeBinder_populatePaintArray_def pattern_elements_def
        example_source_binder_def example_pattern_binder_def
        new_SourceExpressionBinder_def new_CrossFadedCompositeBinder_def new_StructArray_def
        example_pattern_expression_def example_positions_def example_feature_def
        image_lookup_def get_member_def Object_prototype_members_def
        reserve_def emplaceBack_loop_eq)

text \<open>
  The three example calls request the lengths 1, 2, 3 and find the image \<open>stripes\<close>; they
  are safe, the sequence returns, and the source binder's array and both arrays of the
  pattern binder end with 3 elements.
\<close>

theorem populate_sequence_final_length_witness:
  "sorted (map fst example_calls)
   \<and> (\<exists>this'. populate_sequence example_calls example_configuration = Inr this')
   \<and> list_all (\<lambda>arr. length arr = 3) (paint_arrays (snd (binders example_populated ! 1)))
   \<and> list_all (\<lambda>arr. length arr = 3) (paint_arrays (snd (binders example_populated ! 2)))"
proof -
  have s: "sorted (map fst example_calls)" and n: "example_calls \<noteq> []"
    by (simp_all add: example_calls_def)
  have k1: "1 < length (binders example_configuration)"
    and k2: "2 < length (binders example_configuration)"
    by (simp_all add: example_configuration_def)
  have e1: "\<forall>arr \<in> set (paint_arrays (snd (binders example_configuration ! 1))). arr = []"
    by (simp add: example_configuration_def example_source_binder_def
          new_SourceExpressionBinder_def new_StructArray_def)
  have e2: "\<forall>arr \<in> set (paint_arrays (snd (binders example_configuration ! 2))). arr = []"
    by (simp add: example_configuration_def example_pattern_binder_def
          new_CrossFadedCompositeBinder_def new_StructArray_def)
  have p1: "\<forall>(newLength, feature, index, imagePositions) \<in> set example_calls.
           images_present (snd (binders example_configuration ! 1)) feature imagePositions"
    by (simp add: example_configuration_def example_calls_def)
  have p2: "\<forall>(newLength, feature, index, imagePositions) \<in> set example_calls.
           images_present (snd (binders example_configuration ! 2)) feature imagePositions"
    by (simp add: example_configuration_def example_calls_def example_positions_def
          resolved_images_def image_lookup_def get_member_def example_pattern_binder_def
          new_CrossFadedCompositeBinder_def example_pattern_expression_def)
  have safe: "\<forall>c \<in> set example_calls. populate_safe (binders example_configuration) c"
    by (simp add: example_configuration_def example_calls_def example_positions_def
          populate_safe_def images_safe_def
          resolved_images_def image_lookup_def get_member_def example_pattern_binder_def
          new_CrossFadedCompositeBinder_def example_pattern_expression_def
          example_source_binder_def new_SourceExpressionBinder_def
          example_feature_def Object_prototype_members_def)
  have l: "fst (last example_calls) = 3" by (simp add: example_calls_def)
  note t1 = populate_sequence_final_length [OF s n k1 e1 p1, of example_populated 3]
  note t2 = populate_sequence_final_length [OF s n k2 e2 p2, of example_populated 3]
  from t1 [THEN conjunct2, THEN mp, OF safe]
  have r: "\<exists>this'. populate_sequence example_calls example_configuration = Inr this'" .
  from t1 [THEN conjunct1, THEN mp, OF example_populate_sequence] l
  have a1: "list_all (\<lambda>arr. length arr = 3)
              (paint_arrays (snd (binders example_populated ! 1)))"
    by (simp add: list_all_iff)
  from t2 [THEN conjunct1, THEN mp, OF example_populate_sequence] l
  have a2: "list_all (\<lambda>arr. length arr = 3)
              (paint_arrays (snd (binders example_populated ! 2)))"
    by (simp add: list_all_iff)
  from s r a1 a2 show ?thesis by simp
qed

text \<open>
  \<open>createDynamic\<close> creates every paint array empty: a configuration it returns meets the
  premise on the arrays.
\<close>

lemma createDynamic_binder_fresh:
  "createDynamic_binder layerType zoom filterProperties property v = Inr (Some (bnd, key))
   \<Longrightarrow> \<forall>arr \<in> set (paint_arrays bnd). arr = []"
  by (auto simp: createDynamic_binder_def Let_def new_SourceExpressionBinder_def
        new_CompositeExpressionBinder_def new_CrossFadedCompositeBinder_def new_StructArray_def
        split: if_splits PaintValue.splits PossiblyEvaluatedValue.splits sum.splits)

lemma set_update_subset: "set (AList.update k v al) \<subseteq> insert (k, v) (set al)"
  by (induction al) auto

lemma createDynamic_loop_fresh:
  assumes "createDynamic_loop layerType zoom filterProperties vs bs keys = Inr (bs', keys')"
    and "\<forall>(property, bnd) \<in> set bs. \<forall>arr \<in> set (paint_arrays bnd). arr = []"
  shows "\<forall>(property, bnd) \<in> set bs'. \<forall>arr \<in> set (paint_arrays bnd). arr = []"
  using assms
proof (induction vs arbitrary: bs keys)
  case Nil
  then show ?case by simp
next
  case (Cons pv vs)
  obtain property v where pv: "pv = (property, v)" by (cases pv)
  show ?case
  proof (cases "createDynamic_binder layerType zoom filterProperties property v")
    case (Inl err)
    with Cons.prems pv show ?thesis by simp
  next
    case (Inr r)
    show ?thesis
    proof (cases r)
      case None
      with Inr pv Cons show ?thesis by simp
    next
      case (Some bk)
      obtain bnd key where bk: "bk = (bnd, key)" by (cases bk)
      have "\<forall>(property, bnd) \<in> set (AList.update property bnd bs).
              \<forall>arr \<in> set (paint_arrays bnd). arr = []"
        using createDynamic_binder_fresh [of layerType zoom filterProperties property v bnd key]
          Inr Some bk Cons.prems(2) set_update_subset [of property bnd bs]
        by fastforce
      with Cons.IH [of "AList.update property bnd bs" "keys @ [key]"] Cons.prems(1)
        Inr Some bk pv
      show ?thesis by simp
    qed
  qed
qed

lemma createDynamic_fresh:
  assumes "createDynamic layer zoom filterProperties = Inr this"
  shows "\<forall>(property, bnd) \<in> set (binders this). \<forall>arr \<in> set (paint_arrays bnd). arr = []"
proof -
  from assms obtain bs keys where
    "createDynamic_loop (layer_type layer) zoom filterProperties (paint_values layer)
       (binders new_ProgramConfiguration) [] = Inr (bs, keys)"
    and "binders this = bs"
    by (auto simp: createDynamic_def split: sum.splits)
  with createDynamic_loop_fresh [of "layer_type layer" zoom filterProperties
      "paint_values layer" "binders new_ProgramConfiguration" "[]" bs keys]
  show ?thesis by (simp add: new_ProgramConfiguration_def)
qed

subsection \<open>The feature-id map and the buffer offset\<close>

lemma last_record_snoc:
  "(case xs @ [x] of [] \<Rightarrow> [] | pos # ps \<Rightarrow> [last (pos # ps)]) = [x]"
proof (cases "xs @ [x]")
  case Nil
  then show ?thesis by simp
next
  case (Cons pos ps)
  then have "last (pos # ps) = x" by (metis last_snoc)
  with Cons show ?thesis by simp
qed

lemma record_feature_Inr:
  assumes "record_feature featureId pos idm = Inr idm'"
  shows "\<exists>old. map_of idm' featureId = Some (old @ [pos])"
proof (cases "get_member idm featureId")
  case (Own posArray)
  with assms show ?thesis by (auto simp: record_feature_def update_conv')
next
  case Inherited
  with assms show ?thesis by (simp add: record_feature_def)
next
  case Undefined
  with assms have "map_of idm' featureId = Some ([] @ [pos])"
    by (auto simp: record_feature_def update_conv')
  then show ?thesis by blast
qed

text \<open>
  The record a returning call appends has the given index, starts at the offset the call
  found and ends at the requested length.
\<close>

lemma appended_record_populate:
  assumes "populatePaintArrays newLength feature index imagePositions this = Inr after"
  shows "appended_record feature after =
     (if truthy (f_id feature)
      then [\<lparr>p_index = index, p_start = bufferOffset this, p_end = newLength\<rparr>] else [])"
proof (cases "truthy (f_id feature)")
  case False
  then show ?thesis by (simp add: appended_record_def)
next
  case True
  with populatePaintArrays_Inr(5) [OF assms] have
    "record_feature (String (the (f_id feature)))
       \<lparr>p_index = index, p_start = bufferOffset this, p_end = newLength\<rparr> (idMap this)
     = Inr (idMap after)" by simp
  from record_feature_Inr [OF this] obtain old where
    "map_of (idMap after) (String (the (f_id feature)))
     = Some (old @ [\<lparr>p_index = index, p_start = bufferOffset this, p_end = newLength\<rparr>])"
    by blast
  then show ?thesis
    using True by (simp add: appended_record_def last_record_snoc)
qed

text \<open>
  The offsets of a sequence are the requested lengths of its calls, as far as the calls
  return, and the appended records are those of these calls.
\<close>

lemma offsets_take: "offsets cs this = take (length (offsets cs this)) (map fst cs)"
proof (induction cs arbitrary: this)
  case Nil
  then show ?case by simp
next
  case (Cons c cs)
  obtain newLength feature index imagePositions
    where c: "c = (newLength, feature, index, imagePositions)"
    by (cases c) auto
  show ?case
  proof (cases "populatePaintArrays newLength feature index imagePositions this")
    case (Inl err)
    with c show ?thesis by simp
  next
    case (Inr after)
    from Cons.IH [of after] populatePaintArrays_Inr(2) [OF Inr] Inr c
    show ?thesis by simp
  qed
qed

lemma appended_records_take:
  "appended_records cs this =
     concat (map (\<lambda>((newLength, feature, index, imagePositions), before).
                    if truthy (f_id feature)
                    then [\<lparr>p_index = index, p_start = before, p_end = newLength\<rparr>] else [])
               (zip (take (length (offsets cs this)) cs) (bufferOffset this # map fst cs)))"
proof (induction cs arbitrary: this)
  case Nil
  then show ?case by simp
next
  case (Cons c cs)
  obtain newLength feature index imagePositions
    where c: "c = (newLength, feature, index, imagePositions)"
    by (cases c) auto
  show ?case
  proof (cases "populatePaintArrays newLength feature index imagePositions this")
    case (Inl err)
    with c show ?thesis by simp
  next
    case (Inr after)
    from Cons.IH [of after] populatePaintArrays_Inr(2) [OF Inr]
      appended_record_populate [OF Inr] Inr c
    show ?thesis by simp
  qed
qed

lemma offsets_returned:
  "populate_sequence cs this = Inr this' \<Longrightarrow> length (offsets cs this) = length cs"
proof (induction cs arbitrary: this)
  case Nil
  then show ?case by simp
next
  case (Cons c cs)
  obtain newLength feature index imagePositions
    where c: "c = (newLength, feature, index, imagePositions)"
    by (cases c) auto
  from Cons.prems c obtain after where
    "populatePaintArrays newLength feature index imagePositions this = Inr after"
    "populate_sequence cs after = Inr this'"
    by (auto split: sum.splits)
  with Cons.IH [of after] c show ?case by simp
qed

lemma sorted_ends:
  "sorted (map fst cs) \<Longrightarrow>
   sorted (map p_end (concat (map (\<lambda>((newLength, feature, index, imagePositions), before).
                    if truthy (f_id feature)
                    then [\<lparr>p_index = index, p_start = before, p_end = newLength\<rparr>] else [])
               (zip cs bs))))"
proof (induction cs arbitrary: bs)
  case Nil
  then show ?case by simp
next
  case (Cons c cs)
  show ?case
  proof (cases bs)
    case Nil
    then show ?thesis by simp
  next
    case (Cons b bs')
    have "\<forall>x \<in> set (concat (map (\<lambda>((newLength, feature, index, imagePositions), before).
                    if truthy (f_id feature)
                    then [\<lparr>p_index = index, p_start = before, p_end = newLength\<rparr>] else [])
               (zip cs bs'))). fst c \<le> p_end x"
      using Cons.prems by (fastforce dest!: set_zip_leftD split: if_splits)
    with Cons.IH [of bs'] Cons.prems Cons show ?thesis
      by (auto simp: sorted_append split: prod.splits)
  qed
qed

text \<open>
  Claim C5, as the code has it. Every call of \<open>populatePaintArrays\<close> that returns sets the
  stored offset to the length it was given, and the record it appends for a feature with a
  truthy id starts at the offset left by the call before and ends at that length. So when
  the requested lengths of a sequence of calls do not decrease and the first is not below
  the offset the configuration starts with, the \<open>end\<close> values of the appended records do
  not decrease in call order and the stored offset never decreases, up to the first call
  that throws, if one does. The sequence returns when every call is safe: no feature id and
  no resolved pattern name falls on a member that the dictionaries inherit.
\<close>

theorem offsets_follow_requested_lengths:
  assumes "sorted (bufferOffset this # map fst cs)"
  shows "sorted (map p_end (appended_records cs this))
    \<and> sorted (bufferOffset this # offsets cs this)
    \<and> (populate_sequence cs this = Inr this' \<longrightarrow>
         offsets cs this = map fst cs
       \<and> appended_records cs this =
           concat (map (\<lambda>((newLength, feature, index, imagePositions), before).
                          if truthy (f_id feature)
                          then [\<lparr>p_index = index, p_start = before, p_end = newLength\<rparr>]
                          else [])
                     (zip cs (bufferOffset this # offsets cs this))))
    \<and> ((\<forall>c \<in> set cs. populate_safe (binders this) c) \<longrightarrow>
         (\<exists>this'. populate_sequence cs this = Inr this'))"
proof (intro conjI impI)
  let ?m = "length (offsets cs this)"
  from assms have "sorted (map fst cs)" by simp
  then have "sorted (take ?m (map fst cs))" by (rule sorted_wrt_take)
  then have "sorted (map fst (take ?m cs))" by (simp add: take_map)
  from sorted_ends [OF this] show "sorted (map p_end (appended_records cs this))"
    by (simp add: appended_records_take)
  from assms have "sorted (take (Suc ?m) (bufferOffset this # map fst cs))"
    by (rule sorted_wrt_take)
  then show "sorted (bufferOffset this # offsets cs this)"
    using offsets_take [of cs this] by simp
next
  assume r: "populate_sequence cs this = Inr this'"
  from offsets_returned [OF r] offsets_take [of cs this]
  show o: "offsets cs this = map fst cs" by simp
  from offsets_returned [OF r] appended_records_take [of cs this] o
  show "appended_records cs this =
           concat (map (\<lambda>((newLength, feature, index, imagePositions), before).
                          if truthy (f_id feature)
                          then [\<lparr>p_index = index, p_start = before, p_end = newLength\<rparr>]
                          else [])
                     (zip cs (bufferOffset this # offsets cs this)))"
    by simp
next
  assume "\<forall>c \<in> set cs. populate_safe (binders this) c"
  then show "\<exists>this'. populate_sequence cs this = Inr this'"
    by (rule populate_sequence_returns)
qed

text \<open>
  The three example calls on the fresh example configuration return; the offsets are
  1, 2, 3 and the two records end at 1 and 2.
\<close>

theorem offsets_follow_requested_lengths_witness:
  "sorted (bufferOffset example_configuration # map fst example_calls)
   \<and> appended_records example_calls example_configuration
       = [\<lparr>p_index = 0, p_start = 0, p_end = 1\<rparr>, \<lparr>p_index = 1, p_start = 1, p_end = 2\<rparr>]
   \<and> offsets example_calls example_configuration = [1, 2, 3]"
proof -
  have h: "sorted (bufferOffset example_configuration # map fst example_calls)"
    by (simp add: example_configuration_def example_calls_def)
  note t = offsets_follow_requested_lengths [OF h, of example_populated]
  from t [THEN conjunct2, THEN conjunct2, THEN conjunct1, THEN mp, OF example_populate_sequence]
  have "offsets example_calls example_configuration = map fst example_calls
       \<and> appended_records example_calls example_configuration =
           concat (map (\<lambda>((newLength, feature, index, imagePositions), before).
                          if truthy (f_id feature)
                          then [\<lparr>p_index = index, p_start = before, p_end = newLength\<rparr>]
                          else [])
                     (zip example_calls
                        (bufferOffset example_configuration
                         # offsets example_calls example_configuration)))" .
  with h show ?thesis
    by (simp add: example_calls_def example_configuration_def example_feature_def)
qed

text \<open>
  Claim C5 as stated fails: nothing in \<open>populatePaintArrays\<close> compares the requested length
  with the stored offset. A call that requests 5 followed by a call that requests 3, both
  returning, append records that end at 5 and then at 3, and the offset goes from 5 back
  to 3.
\<close>

theorem offsets_counterexample:
  "map p_end (appended_records
      [(5, example_feature (Some (StringId ''a'')), 0, None),
       (3, example_feature (Some (StringId ''b'')), 1, None)] example_configuration) = [5, 3]
   \<and> offsets
      [(5, example_feature (Some (StringId ''a'')), 0, None),
       (3, example_feature (Some (StringId ''b'')), 1, None)] example_configuration = [5, 3]
   \<and> \<not> sorted [5, 3 :: nat]"
  by (simp add: populatePaintArrays_def example_configuration_def
        populatePaintArrays_binder_def is_CrossFadedCompositeBinder_def
        populatePaintArray_no_positions appended_record_def
        record_feature_def get_member_def Object_prototype_members_def example_feature_def)

subsection \<open>Features with a falsy id\<close>





subsection \<open>Missing images in the cross-faded composite binder\<close>








subsection \<open>The cache key\<close>

lemma createDynamic_loop_error:
  "\<exists>(property, v) \<in> set vs. createDynamic_binder layerType zoom fp property v = Inl TypeError \<Longrightarrow>
   createDynamic_loop layerType zoom fp vs bs keys = Inl TypeError"
proof (induction vs arbitrary: bs keys)
  case Nil
  then show ?case by simp
next
  case (Cons pv vs)
  obtain property v where pv: "pv = (property, v)" by (cases pv)
  show ?case
  proof (cases "createDynamic_binder layerType zoom fp property v")
    case (Inl err)
    then show ?thesis by (cases err) (simp add: pv)
  next
    case (Inr r)
    with Cons.prems pv have
      "\<exists>(property, v) \<in> set vs. createDynamic_binder layerType zoom fp property v = Inl TypeError"
      by auto
    with Cons.IH Inr pv show ?thesis by (auto split: option.splits)
  qed
qed

lemma createDynamic_loop_keys:
  "\<forall>(property, v) \<in> set vs. createDynamic_binder layerType zoom fp property v \<noteq> Inl TypeError \<Longrightarrow>
   \<exists>bs'. createDynamic_loop layerType zoom fp vs bs keys
           = Inr (bs', keys @ key_fragments layerType zoom fp vs)"
proof (induction vs arbitrary: bs keys)
  case Nil
  then show ?case by (simp add: key_fragments_def)
next
  case (Cons pv vs)
  obtain property v where pv: "pv = (property, v)" by (cases pv)
  from Cons.prems have rest:
    "\<forall>(property, v) \<in> set vs. createDynamic_binder layerType zoom fp property v \<noteq> Inl TypeError"
    by simp
  show ?case
  proof (cases "createDynamic_binder layerType zoom fp property v")
    case (Inl err)
    with Cons.prems pv show ?thesis by (cases err) simp
  next
    case (Inr r)
    show ?thesis
    proof (cases r)
      case None
      with Inr pv Cons.IH [OF rest, of bs keys] show ?thesis
        by (simp add: key_fragments_def)
    next
      case (Some bk)
      obtain bnd key where "bk = (bnd, key)" by (cases bk)
      with Some Inr pv Cons.IH [OF rest, of "AList.update property bnd bs" "keys @ [key]"]
      show ?thesis by (simp add: key_fragments_def)
    qed
  qed
qed

text \<open>The fragments of a permuted list of paint values are a permutation of the fragments.\<close>

lemma mset_key_fragments:
  assumes "mset vs' = mset vs"
  shows "mset (key_fragments layerType zoom fp vs') = mset (key_fragments layerType zoom fp vs)"
proof -
  let ?f = "\<lambda>(property, v).
              case createDynamic_binder layerType zoom fp property v of
                Inr (Some (bnd, key)) \<Rightarrow> [key]
              | _ \<Rightarrow> []"
  have "mset (concat (map ?f us)) = sum_mset (image_mset (mset \<circ> ?f) (mset us))" for us
    by (induction us) simp_all
  then show ?thesis using assms by (simp add: key_fragments_def)
qed

lemma sort_cong_mset:
  fixes xs ys :: "string list"
  shows "mset xs = mset ys \<Longrightarrow> sort xs = sort ys"
  by (rule properties_for_sort) simp_all

text \<open>
  Claim C4. Two layers of the same type whose paint values are the same up to their
  enumeration order get the same \<open>cacheKey\<close> from \<open>createDynamic\<close> (and when
  \<open>createDynamic\<close> throws for one of them, it throws for the other): the key is the
  concatenation of the sorted fragments, whatever the order they were pushed in.
\<close>

theorem cacheKey_order_independent:
  assumes "mset (paint_values layer') = mset (paint_values layer)"
    and "layer_type layer' = layer_type layer"
  shows "map_sum id cacheKey (createDynamic layer' zoom filterProperties)
       = map_sum id cacheKey (createDynamic layer zoom filterProperties)"
proof (cases "\<exists>(property, v) \<in> set (paint_values layer).
         createDynamic_binder (layer_type layer) zoom filterProperties property v = Inl TypeError")
  case True
  moreover from assms(1) have "set (paint_values layer') = set (paint_values layer)"
    by (rule mset_eq_setD)
  ultimately show ?thesis
    using assms(2) by (simp add: createDynamic_def createDynamic_loop_error)
next
  case False
  moreover from assms(1) have s: "set (paint_values layer') = set (paint_values layer)"
    by (rule mset_eq_setD)
  ultimately have ok: "\<forall>(property, v) \<in> set (paint_values layer).
      createDynamic_binder (layer_type layer) zoom filterProperties property v \<noteq> Inl TypeError"
    and ok': "\<forall>(property, v) \<in> set (paint_values layer').
      createDynamic_binder (layer_type layer) zoom filterProperties property v \<noteq> Inl TypeError"
    by auto
  from createDynamic_loop_keys [OF ok, of "binders new_ProgramConfiguration" "[]"]
  obtain bs where 1: "createDynamic_loop (layer_type layer) zoom filterProperties
      (paint_values layer) (binders new_ProgramConfiguration) []
      = Inr (bs, key_fragments (layer_type layer) zoom filterProperties (paint_values layer))"
    by auto
  from createDynamic_loop_keys [OF ok', of "binders new_ProgramConfiguration" "[]"]
  obtain bs' where 2: "createDynamic_loop (layer_type layer) zoom filterProperties
      (paint_values layer') (binders new_ProgramConfiguration) []
      = Inr (bs', key_fragments (layer_type layer) zoom filterProperties (paint_values layer'))"
    by auto
  have "sort (key_fragments (layer_type layer) zoom filterProperties (paint_values layer'))
      = sort (key_fragments (layer_type layer) zoom filterProperties (paint_values layer))"
    by (rule sort_cong_mset) (rule mset_key_fragments [OF assms(1)])
  with 1 2 assms(2) show ?thesis by (simp add: createDynamic_def)
qed

text \<open>
  The example layer with its paint values enumerated in the reverse order gets the cache
  key of the example configuration.
\<close>

theorem cacheKey_order_independent_witness:
  "map_sum id cacheKey
     (createDynamic (example_layer\<lparr>paint_values := rev (paint_values example_layer)\<rparr>) 5
        (\<lambda>property. True))
   = Inr ''/a_fill-opacity/a_fill-pattern/u_fill-color''"
proof -
  have m: "mset (paint_values (example_layer\<lparr>paint_values := rev (paint_values example_layer)\<rparr>))
           = mset (paint_values example_layer)"
    and t: "layer_type (example_layer\<lparr>paint_values := rev (paint_values example_layer)\<rparr>)
           = layer_type example_layer"
    by simp_all
  from cacheKey_order_independent [OF m t, of 5 "\<lambda>property. True"]
  show ?thesis by (simp add: example_createDynamic example_configuration_def)
qed

subsection \<open>updatePaintArrays\<close>






































subsection \<open>Destroying buffers\<close>

lemma destroy_count_VertexBuffer_destroy:
  "destroy_count (VertexBuffer_destroy buffer context) i =
     destroy_count context i + (if vb_id buffer = i then 1 else 0)"
  by (simp add: destroy_count_def VertexBuffer_destroy_def)

lemma destroy_count_Binder_destroy:
  "destroy_count (Binder_destroy bnd context) i =
     destroy_count context i + count_list (map vb_id (held_buffers bnd)) i"
  by (cases bnd)
     (auto simp: SourceExpressionBinder_destroy_def CompositeExpressionBinder_destroy_def
        CrossFadedCompositeBinder_destroy_def destroy_count_VertexBuffer_destroy Let_def
        split: option.splits)

text \<open>
  Claim C9, as the code has it. Every call of a binder's \<open>destroy()\<close> invokes the
  \<open>destroy\<close> operation of each buffer the binder holds once, and the binder keeps its
  buffers: after \<open>n\<close> calls the operation of a held buffer has been invoked \<open>n\<close> times
  more than before, and a binder without buffer invokes nothing.
\<close>

theorem destroy_invokes_each_time:
  "destroy_count (destroy_times n bnd context) i =
     destroy_count context i + n * count_list (map vb_id (held_buffers bnd)) i"
  by (induction n) (simp_all add: destroy_times_def destroy_count_Binder_destroy)

text \<open>
  Claim C9 as stated fails: \<open>destroy()\<close> does not clear \<open>paintVertexBuffer\<close>. The example
  source binder holds buffer 0 after \<open>upload\<close>; two calls of its \<open>destroy()\<close> invoke the
  \<open>destroy\<close> operation of buffer 0 twice.
\<close>

theorem destroy_twice_counterexample:
  "map vb_id (held_buffers (fst (Binder_upload (Source example_source_binder) example_context)))
     = [0]
   \<and> destroy_count
       (destroy_times 2 (fst (Binder_upload (Source example_source_binder) example_context))
          (snd (Binder_upload (Source example_source_binder) example_context))) 0 = 2"
  by (simp add: destroy_times_def SourceExpressionBinder_upload_def createVertexBuffer_def
        example_context_def SourceExpressionBinder_destroy_def VertexBuffer_destroy_def
        destroy_count_def numeral_2_eq_2)

end
